theory Spec2Isabelle
  imports Complex_Main "HOL-Library.Log_Nat" "HOL-Library.Signed_Division" "HOL-Library.Sublist"
begin

section \<open>Conventions\<close>

text \<open>
  The repository is a Next.js front end with API routes (TypeScript) in front of a Soroban
  contract. The routes are embedded function by function. What a route receives from
  outside the repository (the RPC server's answer to a simulated contract read, the
  clock, the draws of \<^verbatim>\<open>Math.random()\<close>, the environment variables) is an
  argument of its model.
\<close>

section \<open>JavaScript numbers\<close>

text \<open>
  A JavaScript \<^verbatim>\<open>number\<close> is an IEEE 754 double. A finite double is modelled by the
  real number it denotes. The value of a decimal literal of the code, and the result of
  an arithmetic operation, is the exact value rounded to the nearest double, ties to the
  even mantissa: \<open>dbl\<close>. A double has a mantissa of 53 bits: for
  \<open>2^e \<le> \<bar>x\<bar> < 2^(e+1)\<close> the neighbouring doubles are \<open>2^(e-52)\<close> apart, and below
  \<open>2^(-1022)\<close> (the subnormal range) they are \<open>2^(-1074)\<close> apart: \<open>ulp\<close>. The
  literals that are written below without \<open>dbl\<close> (0.5, 1.0, 1000, 1e14, 45000, 2500)
  are doubles.

  NaN and the infinities are not represented: the numbers that come from outside are
  finite.
\<close>

type_synonym jsnum = real

text \<open>\<open>pow2 k\<close> is \<open>2^k\<close> for an integer \<open>k\<close>.\<close>

definition pow2 :: "int \<Rightarrow> real" where
  "pow2 k = (if 0 \<le> k then 2 ^ nat k else 1 / 2 ^ nat (- k))"

text \<open>
  The binary exponent of a number other than 0: the \<open>e\<close> with
  \<open>2^e \<le> \<bar>x\<bar> < 2^(e+1)\<close> (lemma \<open>exponent_bounds\<close> below), from the number of
  bits of the integer part of \<open>\<bar>x\<bar>\<close>, or of \<open>1 / \<bar>x\<bar>\<close> when \<open>\<bar>x\<bar> < 1\<close>.
\<close>

definition exponent :: "real \<Rightarrow> int" where
  "exponent x =
     (if 1 \<le> \<bar>x\<bar> then bitlen \<lfloor>\<bar>x\<bar>\<rfloor> - 1 else - bitlen (\<lceil>1 / \<bar>x\<bar>\<rceil> - 1))"

definition ulp :: "real \<Rightarrow> real" where
  "ulp x = pow2 (max (exponent x) (- 1022) - 52)"

text \<open>Rounding to the nearest integer, ties to the even one.\<close>

definition round_even :: "real \<Rightarrow> int" where
  "round_even y =
     (let f = \<lfloor>y\<rfloor> in
        if y - of_int f < 1 / 2 then f
        else if 1 / 2 < y - of_int f then f + 1
        else if even f then f else f + 1)"

definition dbl :: "real \<Rightarrow> jsnum" where
  "dbl x = (if x = 0 then 0 else of_int (round_even (x / ulp x)) * ulp x)"

text \<open>
  The outcome of an \<^verbatim>\<open>async\<close> function or of a \<^verbatim>\<open>try\<close> block: it throws
  (the promise rejects) with a message, or it returns.
\<close>

datatype 'a promise = Rejected string | Fulfilled 'a

section \<open>The resolution endpoint: \<^verbatim>\<open>src/app/api/resolve/route.ts\<close>\<close>

subsection \<open>ReflectorClient\<close>

record ReflectorPriceData =
  price :: jsnum
  timestamp :: jsnum

text \<open>
  The contract value that \<^verbatim>\<open>getLastPrice\<close> inspects (\<^verbatim>\<open>result.result.retval\<close>),
  by \<^verbatim>\<open>_switch.name\<close>. The payload of \<open>ScvI128\<close> and \<open>ScvU64\<close> is the number
  that \<^verbatim>\<open>parseInt(_value)\<close> gives: \<open>None\<close> when \<^verbatim>\<open>_value\<close> is falsy or
  \<^verbatim>\<open>parseInt\<close> gives NaN. An entry of a map is \<^verbatim>\<open>entry.key?._value\<close> (when
  it is a string) and \<^verbatim>\<open>entry.val\<close> (when it is present). \<open>JsNumber\<close> is a plain
  number (\<^verbatim>\<open>typeof scvValue === 'number'\<close>), \<open>ScvOther\<close> any other object (a map
  without its array of entries among them).
\<close>

datatype scval =
    ScvI128 "jsnum option"
  | ScvU64 "jsnum option"
  | ScvMap "(string option \<times> scval option) list"
  | JsNumber jsnum
  | ScvOther

text \<open>
  What \<^verbatim>\<open>server.simulateTransaction\<close> does for the \<^verbatim>\<open>lastprice\<close> call: an
  exception anywhere in the \<^verbatim>\<open>try\<close> block, a response without
  \<^verbatim>\<open>result.retval\<close> (or with a falsy one), or a return value.
\<close>

datatype sim_lastprice = SimThrows string | SimNoRetval | SimRetval scval

fun parseScvValue :: "scval \<Rightarrow> jsnum" where
  "parseScvValue (ScvI128 v) = (case v of Some x \<Rightarrow> x | None \<Rightarrow> 0)"
| "parseScvValue (ScvU64 v) = (case v of Some x \<Rightarrow> x | None \<Rightarrow> 0)"
| "parseScvValue (JsNumber x) = x"
| "parseScvValue _ = 0"

definition basePrice :: "string \<Rightarrow> jsnum" where
  "basePrice assetSymbol =
     (if assetSymbol = ''EUR/USD'' then dbl 1.08
      else if assetSymbol = ''BTC/USD'' then 45000
      else if assetSymbol = ''ETH/USD'' then 2500
      else 1.0)"

text \<open>\<open>r\<close> is the draw of \<^verbatim>\<open>Math.random()\<close>, in \<open>[0, 1)\<close>.\<close>

definition generateMockPrice :: "string \<Rightarrow> jsnum \<Rightarrow> jsnum" where
  "generateMockPrice assetSymbol r =
     (let variation = dbl (dbl (r - 0.5) * dbl 0.02)
      in dbl (basePrice assetSymbol * dbl (1 + variation)))"

definition assetParam :: "string \<Rightarrow> string" where
  "assetParam assetSymbol =
     (if assetSymbol = ''EUR/USD'' \<or> assetSymbol = ''EUR'' then ''EUR'' else assetSymbol)"

text \<open>
  \<^verbatim>\<open>entry.val\<close> as a condition: a missing value and the number 0 are falsy, an
  object is truthy.
\<close>

definition val_truthy :: "scval option \<Rightarrow> bool" where
  "val_truthy v = (case v of None \<Rightarrow> False | Some (JsNumber x) \<Rightarrow> x \<noteq> 0 | Some _ \<Rightarrow> True)"

text \<open>The loop over the entries of a price map: a later entry overwrites an earlier one.\<close>

fun read_entries ::
  "(string option \<times> scval option) list \<Rightarrow> jsnum \<times> jsnum \<Rightarrow> jsnum \<times> jsnum" where
  "read_entries [] pt = pt"
| "read_entries ((k, v) # es) (p, t) =
     (let p' = (case v of
                  Some x \<Rightarrow>
                    if k = Some ''price'' \<and> val_truthy v
                      then dbl (parseScvValue x / 100000000000000)
                    else p
                | None \<Rightarrow> p);
          t' = (case v of
                  Some x \<Rightarrow>
                    if k = Some ''timestamp'' \<and> val_truthy v then dbl (parseScvValue x * 1000)
                    else t
                | None \<Rightarrow> t)
      in read_entries es (p', t'))"

definition is_object :: "scval \<Rightarrow> bool" where
  "is_object cv = (case cv of JsNumber _ \<Rightarrow> False | _ \<Rightarrow> True)"

text \<open>
  The price and the time stamp that \<^verbatim>\<open>getLastPrice\<close> extracts from a return value
  that is an object (lines 76 to 98): from the entries of a map, or from a bare
  \<^verbatim>\<open>scvI128\<close>; \<open>now\<close> is \<^verbatim>\<open>Date.now()\<close>.
\<close>

definition read_price :: "scval \<Rightarrow> jsnum \<Rightarrow> jsnum \<times> jsnum" where
  "read_price cv now =
     (case cv of
        ScvMap es \<Rightarrow> read_entries es (0, now)
      | ScvI128 v \<Rightarrow> (dbl (parseScvValue cv / 100000000000000), now)
      | _ \<Rightarrow> (0, now))"

text \<open>
  \<^verbatim>\<open>new Date(timestamp).toISOString()\<close> (in the log line before the return, inside the
  \<^verbatim>\<open>try\<close> block) throws a RangeError for a time value beyond 8.64e15 ms (so also
  for a product that has overflowed).
\<close>

definition valid_date :: "jsnum \<Rightarrow> bool" where
  "valid_date t = (\<bar>t\<bar> \<le> 8640000000000000)"

definition mock_data :: "string \<Rightarrow> jsnum \<Rightarrow> jsnum \<Rightarrow> ReflectorPriceData" where
  "mock_data assetSymbol now r = \<lparr>price = generateMockPrice assetSymbol r, timestamp = now\<rparr>"

text \<open>The body of the \<^verbatim>\<open>try\<close> block of \<^verbatim>\<open>getLastPrice\<close>.\<close>

definition getLastPrice_try ::
  "(string \<Rightarrow> sim_lastprice) \<Rightarrow> string \<Rightarrow> jsnum \<Rightarrow> jsnum \<Rightarrow> ReflectorPriceData promise" where
  "getLastPrice_try oracle assetSymbol now r =
     (case oracle (assetParam assetSymbol) of
        SimThrows e \<Rightarrow> Rejected e
      | SimNoRetval \<Rightarrow> Fulfilled (mock_data assetSymbol now r)
      | SimRetval cv \<Rightarrow>
          if is_object cv then
            (let (p, t) = read_price cv now
             in if p > 0 then
                  (if valid_date t then Fulfilled \<lparr>price = p, timestamp = t\<rparr>
                   else Rejected ''Invalid time value'')
                else Fulfilled (mock_data assetSymbol now r))
          else Fulfilled (mock_data assetSymbol now r))"

text \<open>\<^verbatim>\<open>getLastPrice\<close>: the \<^verbatim>\<open>catch\<close> clause answers an exception with mock data.\<close>

definition getLastPrice ::
  "(string \<Rightarrow> sim_lastprice) \<Rightarrow> string \<Rightarrow> jsnum \<Rightarrow> jsnum \<Rightarrow> ReflectorPriceData promise" where
  "getLastPrice oracle assetSymbol now r =
     (case getLastPrice_try oracle assetSymbol now r of
        Rejected e \<Rightarrow> Fulfilled (mock_data assetSymbol now r)
      | Fulfilled d \<Rightarrow> Fulfilled d)"

subsection \<open>The GET handler\<close>

text \<open>
  A JavaScript value as the handler reads it from the contract's answer:
  \<^verbatim>\<open>undefined\<close>, a boolean, a \<^verbatim>\<open>Buffer\<close> (with its text), anything else.
\<close>

datatype jsval = JUndefined | JBool bool | JBuffer string | JOther

text \<open>
  An item of the answer's \<^verbatim>\<open>_value\<close> array: the text of
  \<^verbatim>\<open>item._attributes.key._value\<close> when the item has \<^verbatim>\<open>_attributes\<close> with a key
  and a val and the key's \<^verbatim>\<open>_value\<close> is a Buffer (\<open>None\<close> otherwise: the loop
  skips the item), and \<^verbatim>\<open>item._attributes.val._value\<close>.
\<close>

datatype pred_item = Item "string option" jsval

text \<open>
  \<^verbatim>\<open>result.result\<close> of the simulated \<^verbatim>\<open>get_prediction\<close>: an object whose
  \<^verbatim>\<open>_value\<close> is an array of items, an object without such an array, or an object
  that throws while it is read (the \<^verbatim>\<open>parseError\<close> clause).
\<close>

datatype prediction_data = ValueArray "pred_item list" | NoValueArray | Unreadable

text \<open>
  What the RPC server does for \<^verbatim>\<open>get_prediction(id)\<close>: \<open>PredThrows\<close> when
  \<^verbatim>\<open>getLatestLedger\<close> or \<^verbatim>\<open>simulateTransaction\<close> rejects, \<open>PredError\<close> when
  the response has an \<^verbatim>\<open>error\<close> field, \<open>PredNoResult\<close> when it has neither an
  error nor a result.
\<close>

datatype sim_prediction =
    PredThrows string
  | PredError string
  | PredNoResult
  | PredResult prediction_data

record parsed_prediction =
  asset :: string
  predictedDirection :: jsval
  resolved :: jsval

definition initial_parsed :: parsed_prediction where
  "initial_parsed = \<lparr>asset = ''EUR/USD'', predictedDirection = JBool False, resolved = JBool False\<rparr>"

fun parse_items :: "pred_item list \<Rightarrow> parsed_prediction \<Rightarrow> parsed_prediction" where
  "parse_items [] acc = acc"
| "parse_items (Item k v # items) acc =
     parse_items items
       (if k = Some ''asset'' \<and> (case v of JBuffer _ \<Rightarrow> True | _ \<Rightarrow> False)
          then acc\<lparr>asset := (case v of JBuffer s \<Rightarrow> s | _ \<Rightarrow> asset acc)\<rparr>
        else if k = Some ''prediction'' \<and> v \<noteq> JUndefined
          then acc\<lparr>predictedDirection := v\<rparr>
        else if k = Some ''resolved'' \<and> v \<noteq> JUndefined
          then acc\<lparr>resolved := v\<rparr>
        else acc)"


text \<open>The two comparisons of the handler (lines 357 and 360).\<close>

definition actualPriceWentUp :: "jsnum \<Rightarrow> jsnum \<Rightarrow> bool" where
  "actualPriceWentUp currentPrice historicalPrice = (currentPrice > historicalPrice)"

definition predictionCorrect :: "jsval \<Rightarrow> bool \<Rightarrow> bool" where
  "predictionCorrect predicted actual = (predicted = JBool actual)"

record contract_data =
  cd_asset :: string
  cd_predictedDirection :: jsval
  cd_resolved :: bool

text \<open>
  The JSON body of a resolution (the texts \<^verbatim>\<open>message\<close> and \<^verbatim>\<open>note\<close> and the
  copy \<^verbatim>\<open>oracleData\<close> of the current price are left out).
\<close>

record resolution =
  predictionId :: string
  outcome :: bool
  currentPrice :: jsnum
  historicalPrice :: jsnum
  rewardsDistributed :: bool
  resolvedViaContract :: bool
  contractData :: "contract_data option"
  contractError :: "string option"

datatype resolve_response =
    ErrorResponse nat string
  | PredictionNotSubmitted string
  | Resolution resolution

text \<open>
  What the handler reads from outside: the two environment variables, the exception of
  \<^verbatim>\<open>new Contract(DAO_CONTRACT_ID)\<close> if it throws (line 196, outside the inner
  \<^verbatim>\<open>try\<close>), the oracle, the clock and the draws of \<^verbatim>\<open>Math.random()\<close> in the
  order the handler makes them.
\<close>

record resolve_env =
  DAO_CONTRACT_ID :: string
  REFLECTOR_CONTRACT_ID :: string
  contract_ctor_error :: "string option"
  lastprice_sim :: "string \<Rightarrow> sim_lastprice"
  clock :: jsnum
  random1 :: jsnum
  random2 :: jsnum

text \<open>
  The ledger as the handler sees it: the answer to a simulated \<^verbatim>\<open>get_prediction\<close>
  for every id. The handler only simulates; it submits nothing.
\<close>

type_synonym ledger_view = "string \<Rightarrow> sim_prediction"

text \<open>\<^verbatim>\<open>String.prototype.includes\<close>: \<open>js_includes s t\<close> is \<^verbatim>\<open>s.includes(t)\<close>.\<close>

fun js_includes :: "string \<Rightarrow> string \<Rightarrow> bool" where
  "js_includes [] t = (t = [])"
| "js_includes (c # cs) t = (prefix t (c # cs) \<or> js_includes cs t)"

text \<open>The \<^verbatim>\<open>catch (contractError)\<close> clause: a resolution from random data.\<close>

definition simulated_resolution :: "resolve_env \<Rightarrow> string \<Rightarrow> string \<Rightarrow> resolution" where
  "simulated_resolution env pid msg =
     (let mockHistoricalPrice = 1.0;
          mockCurrentPrice = (if random1 env > 0.5 then dbl 1.05 else dbl 0.95);
          predictedUp = (js_includes pid ''up'' \<or> random2 env > 0.5);
          priceWentUp = (mockCurrentPrice > mockHistoricalPrice);
          correct = (predictedUp = priceWentUp)
      in \<lparr>predictionId = pid, outcome = correct, currentPrice = mockCurrentPrice,
          historicalPrice = mockHistoricalPrice, rewardsDistributed = True,
          resolvedViaContract = False, contractData = None, contractError = Some msg\<rparr>)"

text \<open>
  The current price of the handler (lines 342 to 354): what \<^verbatim>\<open>getLastPrice\<close>
  returns for EUR/USD, and a fixed rate if it rejects.
\<close>

definition currentPriceData :: "resolve_env \<Rightarrow> ReflectorPriceData" where
  "currentPriceData env =
     (case getLastPrice (lastprice_sim env) ''EUR/USD'' (clock env) (random1 env) of
        Fulfilled d \<Rightarrow> d
      | Rejected e \<Rightarrow> \<lparr>price = dbl 1.0856, timestamp = clock env\<rparr>)"

text \<open>
  The part of the handler after the prediction has been parsed (lines 332 to 393). Its
  log line renders the time stamp of the price with \<^verbatim>\<open>toISOString\<close>; the time stamp
  is a valid time whenever the clock is (lemma \<open>getLastPrice_valid_time\<close> below), so
  the line does not throw.
\<close>

definition oracle_resolution :: "resolve_env \<Rightarrow> string \<Rightarrow> parsed_prediction \<Rightarrow> resolution" where
  "oracle_resolution env pid p =
     (let hist = dbl (price (currentPriceData env) * dbl 0.995);
          up = actualPriceWentUp (price (currentPriceData env)) hist;
          correct = predictionCorrect (predictedDirection p) up
      in \<lparr>predictionId = pid, outcome = correct, currentPrice = price (currentPriceData env),
          historicalPrice = hist, rewardsDistributed = correct,
          resolvedViaContract = True,
          contractData = Some \<lparr>cd_asset = asset p,
                                cd_predictedDirection = predictedDirection p,
                                cd_resolved = False\<rparr>,
          contractError = None\<rparr>)"

definition GET :: "resolve_env \<Rightarrow> string option \<Rightarrow> ledger_view \<Rightarrow> resolve_response \<times> ledger_view" where
  "GET env param ledger =
     (case param of
        None \<Rightarrow> (ErrorResponse 400 ''Missing predictionId parameter'', ledger)
      | Some pid \<Rightarrow>
          if pid = [] then (ErrorResponse 400 ''Missing predictionId parameter'', ledger)
          else if DAO_CONTRACT_ID env = [] \<or> REFLECTOR_CONTRACT_ID env = []
            then (ErrorResponse 500
                    ''Contract addresses not configured. Please set PUBLIC_DAO_CONTRACT_ID and PUBLIC_REFLECTOR_CONTRACT_ID'',
                  ledger)
          else if contract_ctor_error env \<noteq> None
            then (ErrorResponse 500
                    (''Resolution failed: '' @ (case contract_ctor_error env of Some m \<Rightarrow> m | None \<Rightarrow> [])),
                  ledger)
          else
            (case ledger pid of
               PredThrows msg \<Rightarrow> (Resolution (simulated_resolution env pid msg), ledger)
             | PredError e \<Rightarrow>
                 (Resolution (simulated_resolution env pid (''Contract call failed: '' @ e)), ledger)
             | PredNoResult \<Rightarrow> (PredictionNotSubmitted pid, ledger)
             | PredResult Unreadable \<Rightarrow> (PredictionNotSubmitted pid, ledger)
             | PredResult NoValueArray \<Rightarrow>
                 (Resolution (oracle_resolution env pid initial_parsed), ledger)
             | PredResult (ValueArray items) \<Rightarrow>
                 (Resolution (oracle_resolution env pid (parse_items items initial_parsed)), ledger)))"

text \<open>
  \<^verbatim>\<open>mockResolution\<close> (defined in the file, called nowhere): the outcome is the
  direction; \<open>ra\<close> and \<open>rb\<close> are its two draws of \<^verbatim>\<open>Math.random()\<close>.
\<close>

definition mockResolution :: "string \<Rightarrow> jsnum \<Rightarrow> jsnum \<Rightarrow> resolution" where
  "mockResolution pid ra rb =
     (let cur = dbl (dbl 1.08 + dbl (dbl (ra - 0.5) * dbl 0.02));
          hist = dbl (dbl 1.07 + dbl (dbl (rb - 0.5) * dbl 0.02));
          res = (cur > hist)
      in \<lparr>predictionId = pid, outcome = res, currentPrice = cur, historicalPrice = hist,
          rewardsDistributed = True, resolvedViaContract = False,
          contractData = None, contractError = None\<rparr>)"

section \<open>The prepare-transaction endpoint: \<^verbatim>\<open>src/unnamed/part_001\<close>, first file\<close>

text \<open>
  The request body. \<^verbatim>\<open>prediction\<close> is the pair of \<^verbatim>\<open>asset\<close> and
  \<^verbatim>\<open>direction\<close>, \<open>None\<close> when the field is missing; an empty string stands for a
  missing (falsy) \<^verbatim>\<open>publicKey\<close> or \<^verbatim>\<open>teamName\<close>.
\<close>

record PrepareTransactionRequest =
  publicKey :: string
  teamName :: string
  stakePercentage :: jsnum
  prediction :: "(string \<times> bool) option"

text \<open>
  The contract operation a prepared transaction carries (the XDR envelope is opaque):
  \<^verbatim>\<open>make_prediction(id, team, asset, direction, stake_amount, stake_percentage, predictor)\<close>
  or \<^verbatim>\<open>form_team(name, members)\<close>.
\<close>

datatype operation =
    Call_make_prediction string string string bool int jsnum string
  | Call_form_team string "string list"

record PrepareTransactionResponse =
  xdr :: operation
  resp_predictionId :: string
  operationType :: string

datatype prepare_response =
    PrepareError nat string
  | Prepared PrepareTransactionResponse

text \<open>
  The simulated \<^verbatim>\<open>get_team\<close>: the call throws, the response has an
  \<^verbatim>\<open>error\<close> field, or it has none.
\<close>

datatype team_sim = TeamSimThrows | TeamSimError | TeamSimSuccess

text \<open>
  What the handler reads from outside: the environment variables; whether
  \<^verbatim>\<open>Keypair.fromPublicKey\<close> accepts a key; the error of
  \<^verbatim>\<open>horizonServer.loadAccount\<close>, of \<^verbatim>\<open>new Contract(...)\<close> (lines 103 and 104)
  and of building and preparing the transaction (lines 184 to 220), when they throw; the
  simulated \<^verbatim>\<open>get_team\<close>; the clock; the text \<^verbatim>\<open>Math.random().toString(36)\<close>.
  \<open>kale_balance_of\<close> is the balance the token contract holds for an address: the
  handler has no read of it.
\<close>

record prepare_env =
  env_DAO_CONTRACT_ID :: string
  env_KALE_CONTRACT_ID :: string
  fromPublicKey_ok :: "string \<Rightarrow> bool"
  loadAccount_error :: "string \<Rightarrow> string option"
  Contract_error :: "string option"
  get_team_sim :: "string \<Rightarrow> team_sim"
  prepareTransaction_error :: "operation \<Rightarrow> string option"
  kale_balance_of :: "string \<Rightarrow> int"
  Date_now :: nat
  random_base36 :: string

text \<open>The decimal text of a number, as a template literal renders \<^verbatim>\<open>Date.now()\<close>.\<close>

definition digit :: "nat \<Rightarrow> char" where
  "digit d = ''0123456789'' ! d"

fun decimal :: "nat \<Rightarrow> string" where
  "decimal n = (if n < 10 then [digit n] else decimal (n div 10) @ [digit (n mod 10)])"

text \<open>
  \<^verbatim>\<open>BigInt(x)\<close> throws a RangeError unless \<open>x\<close> is an integer (the message of the
  model leaves the number out).
\<close>

definition BigInt :: "jsnum \<Rightarrow> int promise" where
  "BigInt x =
     (if of_int \<lfloor>x\<rfloor> = x then Fulfilled \<lfloor>x\<rfloor>
      else Rejected ''The number cannot be converted to a BigInt because it is not an integer'')"

text \<open>Line 111: the balance is a constant.\<close>

definition kaleBalance :: int where
  "kaleBalance = 1000000000"

text \<open>Lines 120 and 121; the division of BigInts truncates toward zero (\<open>sdiv\<close>).\<close>

definition stakeAmount :: "int \<Rightarrow> int" where
  "stakeAmount pct = (kaleBalance * pct) sdiv 100"

text \<open>Line 131; \<^verbatim>\<open>substring(7)\<close> drops the first seven characters.\<close>

definition make_predictionId :: "string \<Rightarrow> nat \<Rightarrow> string \<Rightarrow> string" where
  "make_predictionId team now rnd36 = team @ ''_'' @ decimal now @ ''_'' @ drop 7 rnd36"

text \<open>The outer \<^verbatim>\<open>catch\<close> clause (lines 248 to 283).\<close>

definition outer_catch :: "string \<Rightarrow> prepare_response" where
  "outer_catch errorMessage =
     (if js_includes errorMessage ''Account not found'' then
        PrepareError 400
          ''Account not found. Please ensure your wallet is funded on Stellar Testnet.''
      else if js_includes errorMessage ''contract not found'' then
        PrepareError 500 ''Contract not deployed or invalid contract ID''
      else if js_includes errorMessage ''insufficient balance'' then
        PrepareError 400 ''Insufficient balance for transaction fees''
      else PrepareError 500 (''Transaction preparation failed: '' @ errorMessage))"

text \<open>Lines 133 to 247: the id, the team check, the operation, the prepared transaction.\<close>

definition build_transaction :: "prepare_env \<Rightarrow> PrepareTransactionRequest \<Rightarrow> int \<Rightarrow> prepare_response" where
  "build_transaction env body amount =
     (let pid = make_predictionId (teamName body) (Date_now env) (random_base36 env);
          teamExists = (get_team_sim env (teamName body) = TeamSimSuccess);
          op = (if teamExists then
                  Call_make_prediction pid (teamName body)
                    (case prediction body of Some (a, d) \<Rightarrow> a | None \<Rightarrow> [])
                    (case prediction body of Some (a, d) \<Rightarrow> d | None \<Rightarrow> False)
                    amount (stakePercentage body) (publicKey body)
                else Call_form_team (teamName body) [publicKey body])
      in case prepareTransaction_error env op of
           Some m \<Rightarrow> PrepareError 500 (''Contract operation failed: '' @ m)
         | None \<Rightarrow>
             Prepared \<lparr>xdr = op, resp_predictionId = pid,
                       operationType = (if teamExists then ''make_prediction'' else ''form_team'')\<rparr>)"

definition POST :: "prepare_env \<Rightarrow> PrepareTransactionRequest \<Rightarrow> prepare_response" where
  "POST env body =
     (if publicKey body = [] \<or> teamName body = [] \<or> prediction body = None then
        PrepareError 400 ''Missing required fields: publicKey, teamName, or prediction''
      else if \<not> fromPublicKey_ok env (publicKey body) then
        PrepareError 400 ''Invalid Stellar public key format''
      else if stakePercentage body < 0 \<or> stakePercentage body > 100 then
        PrepareError 400 ''Stake percentage must be between 0 and 100''
      else if env_DAO_CONTRACT_ID env = [] \<or> env_KALE_CONTRACT_ID env = [] then
        PrepareError 500
          ''Contract addresses not configured. Please set PUBLIC_DAO_CONTRACT_ID and PUBLIC_KALE_CONTRACT_ID''
      else
        (case loadAccount_error env (publicKey body) of
           Some m \<Rightarrow>
             PrepareError 400
               (''Account not found: '' @ m @
                ''. Please ensure your wallet is funded on Stellar Testnet.'')
         | None \<Rightarrow>
             (case Contract_error env of
                Some m \<Rightarrow> outer_catch m
              | None \<Rightarrow>
                  (case BigInt (stakePercentage body) of
                     Rejected m \<Rightarrow> outer_catch m
                   | Fulfilled pct \<Rightarrow>
                       if stakeAmount pct \<le> 0 then
                         PrepareError 400 ''Insufficient KALE balance for staking''
                       else build_transaction env body (stakeAmount pct)))))"

section \<open>The user-team endpoint: \<^verbatim>\<open>src/unnamed/part_001\<close>, second file\<close>

text \<open>
  \<^verbatim>\<open>contractValue._value\<close> as \<^verbatim>\<open>getUserTeam\<close> tells it apart: a falsy value; a
  string; the JSON form of a Buffer (\<^verbatim>\<open>{type: 'Buffer', data}\<close>) with the text it
  decodes to, or one whose decoding throws; a Buffer with its text; any other value with
  the text \<^verbatim>\<open>String(_value)\<close> gives.
\<close>

datatype payload =
    PFalsy
  | PString string
  | PBufferJson string
  | PBadBufferJson
  | PBuffer string
  | POtherValue string

record contract_value =
  switch_name :: string
  arm :: "string option"
  cv_value :: payload

text \<open>
  The simulated \<^verbatim>\<open>get_user_team\<close>: an exception in the inner \<^verbatim>\<open>try\<close>, a
  response without a return value, a return value without \<^verbatim>\<open>_switch.name\<close>, or a
  contract value.
\<close>

datatype sim_user_team = UtThrows | UtNoRetval | UtMalformed | UtRetval contract_value

text \<open>
  The response: an error with its HTTP status, or \<^verbatim>\<open>{success: true, teamName, message}\<close>
  with \<^verbatim>\<open>teamName\<close> null (\<open>None\<close>) or a name.
\<close>

datatype user_team_response =
    UserTeamError nat string
  | UserTeam "string option" string

definition truthy :: "payload \<Rightarrow> bool" where
  "truthy v = (case v of PFalsy \<Rightarrow> False | PString s \<Rightarrow> s \<noteq> [] | _ \<Rightarrow> True)"

text \<open>Lines 444 to 491: the team name read from a non-void contract value.\<close>

definition actualTeamName :: "contract_value \<Rightarrow> string option" where
  "actualTeamName cv =
     (if arm cv = Some ''str'' \<and> truthy (cv_value cv) then
        (case cv_value cv of
           PString s \<Rightarrow> Some s
         | PBufferJson s \<Rightarrow> Some s
         | PBadBufferJson \<Rightarrow> None
         | PBuffer s \<Rightarrow> Some s
         | POtherValue s \<Rightarrow> Some s
         | PFalsy \<Rightarrow> None)
      else if switch_name cv = ''scvString'' \<and> truthy (cv_value cv) then
        (case cv_value cv of
           PString s \<Rightarrow> Some s
         | PBufferJson s \<Rightarrow> Some s
         | _ \<Rightarrow> None)
      else None)"

text \<open>
  What \<^verbatim>\<open>getUserTeam\<close> reads from outside, but for the ledger: the environment
  variable, whether \<^verbatim>\<open>Keypair.fromPublicKey\<close> accepts the address, whether
  \<^verbatim>\<open>new Contract(DAO_CONTRACT_ID)\<close> throws (line 380), and the fault of the RPC
  call, when it has one (\<open>None\<close>: the server answers with the contract's return value).
\<close>

record user_team_env =
  ut_DAO_CONTRACT_ID :: string
  ut_fromPublicKey_ok :: "string \<Rightarrow> bool"
  ut_Contract_throws :: bool
  ut_rpc_fault :: "sim_user_team option"

section \<open>The DAO contract's team registry\<close>

text \<open>
  The contract (\<^verbatim>\<open>contracts/dao/src/lib.rs\<close>) is not among the sources; only its
  documentation (\<^verbatim>\<open>CONTRACT_DOCS.md\<close>) and its callers, the API routes, are. Its team
  registry is modelled from the specification.
\<close>

text \<open>Modelled from the spec: the error kinds of the missing contract (section 7).\<close>

datatype dao_error =
    LowBalance
  | Unauthorized
  | TeamNotFound
  | TeamAlreadyExists
  | AlreadyInTeam
  | InvalidStakePercentage
  | PredictionExists
  | PredictionNotFound
  | OracleDataUnavailable
  | AlreadyResolved
  | NotResolved
  | AlreadyDistributed

text \<open>The \<^verbatim>\<open>Team\<close> structure of \<^verbatim>\<open>CONTRACT_DOCS.md\<close>.\<close>

record Team =
  name :: string
  members :: "string list"
  total_stake :: int

text \<open>
  Modelled from the spec: the persistent store of the missing contract, restricted to the
  entries the team registry owns, \<^verbatim>\<open>Teams[name]\<close> and \<^verbatim>\<open>UserTeams[address]\<close>
  (the membership index).
\<close>

record dao_store =
  Teams :: "string \<rightharpoonup> Team"
  UserTeams :: "string \<rightharpoonup> string"

definition empty_store :: dao_store where
  "empty_store = \<lparr>Teams = Map.empty, UserTeams = Map.empty\<rparr>"

text \<open>
  Modelled from the spec: \<^verbatim>\<open>form_team(name, members)\<close> of the missing contract. It
  fails with \<open>TeamAlreadyExists\<close> if the name is taken and with \<open>AlreadyInTeam\<close> if a
  member has a membership mapping; on success it creates the Team record and populates
  the membership index for every member.
\<close>

definition form_team :: "string \<Rightarrow> string list \<Rightarrow> dao_store \<Rightarrow> dao_error + dao_store" where
  "form_team team_name ms s =
     (if Teams s team_name \<noteq> None then Inl TeamAlreadyExists
      else if list_ex (\<lambda>m. UserTeams s m \<noteq> None) ms then Inl AlreadyInTeam
      else Inr (s\<lparr>Teams := (Teams s)(team_name \<mapsto>
                                \<lparr>name = team_name, members = ms, total_stake = 0\<rparr>),
                  UserTeams := (\<lambda>a. if a \<in> set ms then Some team_name else UserTeams s a)\<rparr>))"

text \<open>
  Modelled from the spec: \<^verbatim>\<open>get_team(name)\<close> of the missing contract, read-only; it
  returns the Team record or signals \<open>TeamNotFound\<close>.
\<close>

definition get_team :: "string \<Rightarrow> dao_store \<Rightarrow> dao_error + Team" where
  "get_team team_name s = (case Teams s team_name of None \<Rightarrow> Inl TeamNotFound | Some t \<Rightarrow> Inr t)"

text \<open>
  Modelled from the spec: \<^verbatim>\<open>get_user_team(address)\<close> of the missing contract,
  read-only; it returns the team name for an address, or \<open>None\<close> for "no team".
\<close>

definition get_user_team :: "string \<Rightarrow> dao_store \<Rightarrow> string option" where
  "get_user_team address s = UserTeams s address"

text \<open>
  Modelled from the spec: an entry point runs as one transaction; on an error the host
  rolls the store back, so a failed call leaves the store as it was.
\<close>

definition invoke ::
  "(dao_store \<Rightarrow> dao_error + dao_store) \<Rightarrow> dao_store \<Rightarrow> (dao_error + unit) \<times> dao_store" where
  "invoke f s = (case f s of Inl e \<Rightarrow> (Inl e, s) | Inr s' \<Rightarrow> (Inr (), s'))"

text \<open>A sequence of \<^verbatim>\<open>form_team\<close> calls, each with its name and its members.\<close>

fun run_calls :: "(string \<times> string list) list \<Rightarrow> dao_store \<Rightarrow> dao_store" where
  "run_calls [] s = s"
| "run_calls ((n, ms) # cs) s = run_calls cs (snd (invoke (form_team n ms) s))"

text \<open>
  The membership index agrees with the teams' member lists: an address is mapped to a
  team name exactly when that team exists and lists the address.
\<close>

definition index_consistent :: "dao_store \<Rightarrow> bool" where
  "index_consistent s =
     (\<forall>a t. (UserTeams s a = Some t) = (\<exists>T. Teams s t = Some T \<and> a \<in> set (members T)))"

text \<open>No address is listed by two teams.\<close>

definition one_team_per_address :: "dao_store \<Rightarrow> bool" where
  "one_team_per_address s =
     (\<forall>a t1 t2 T1 T2.
        Teams s t1 = Some T1 \<and> a \<in> set (members T1) \<and>
        Teams s t2 = Some T2 \<and> a \<in> set (members T2) \<longrightarrow> t1 = t2)"

section \<open>The routes over the contract\<close>

subsection \<open>\<^verbatim>\<open>getUserTeam\<close>\<close>

text \<open>
  The contract value the SDK hands to \<^verbatim>\<open>getUserTeam\<close> for the contract's answer:
  \<^verbatim>\<open>scvVoid\<close> for "no team", a string value (arm \<^verbatim>\<open>str\<close>, the text in a Buffer)
  for a team name, as the comments of lines 417 and 452 expect.
\<close>

definition sdk_user_team :: "string option \<Rightarrow> sim_user_team" where
  "sdk_user_team answer =
     (case answer of
        None \<Rightarrow> UtRetval \<lparr>switch_name = ''scvVoid'', arm = None, cv_value = PFalsy\<rparr>
      | Some t \<Rightarrow> UtRetval \<lparr>switch_name = ''scvString'', arm = Some ''str'', cv_value = PBuffer t\<rparr>)"

definition simulate_get_user_team :: "user_team_env \<Rightarrow> string \<Rightarrow> dao_store \<Rightarrow> sim_user_team" where
  "simulate_get_user_team env address s =
     (case ut_rpc_fault env of
        Some f \<Rightarrow> f
      | None \<Rightarrow> sdk_user_team (get_user_team address s))"

text \<open>
  \<^verbatim>\<open>getUserTeam\<close> (lines 336 to 532 of the second file). It simulates the read and
  submits nothing: the store it returns is the store it was given.
\<close>

definition getUserTeam ::
  "user_team_env \<Rightarrow> string option \<Rightarrow> dao_store \<Rightarrow> user_team_response \<times> dao_store" where
  "getUserTeam env address s =
     (case address of
        None \<Rightarrow> (UserTeamError 400 ''Address parameter is required'', s)
      | Some a \<Rightarrow>
          if a = [] then (UserTeamError 400 ''Address parameter is required'', s)
          else if \<not> ut_fromPublicKey_ok env a then
            (UserTeamError 400 ''Invalid Stellar address format'', s)
          else if ut_DAO_CONTRACT_ID env = [] then
            (UserTeamError 500 ''DAO contract not configured'', s)
          else if ut_Contract_throws env then
            (UserTeam None ''User is not a member of any team'', s)
          else
            (case simulate_get_user_team env a s of
               UtRetval cv \<Rightarrow>
                 if switch_name cv = ''scvVoid'' then
                   (UserTeam None ''User is not a member of any team'', s)
                 else
                   (UserTeam
                      (Some (case actualTeamName cv of
                               Some t \<Rightarrow> if t = [] then ''unknown-team'' else t
                             | None \<Rightarrow> ''unknown-team''))
                      ''Team membership found'', s)
             | _ \<Rightarrow> (UserTeam None ''Unable to determine team membership'', s)))"

subsection \<open>Team creation: \<^verbatim>\<open>src/unnamed/part_003\<close>\<close>

text \<open>
  A simulated read as the team routes test it: the call throws; the response has no
  return value with a \<^verbatim>\<open>_switch.name\<close> (so when the contract signalled an error);
  the return value is \<^verbatim>\<open>scvVoid\<close>; the return value is another contract value.
\<close>

datatype read_result = ReadThrows | ReadNoRetval | ReadVoid | ReadValue

datatype team_route_error =
    MissingFields
  | BadTeamNameLength
  | InvalidPublicKey
  | DaoNotConfigured
  | AccountNotFound string
  | TeamExists string
  | TeamDoesNotExist string
  | AlreadyMember
  | RouteFailed string

datatype team_response =
    TeamRouteError nat team_route_error
  | TeamPrepared operation string

text \<open>
  What a team route reads from outside, but for the ledger: as for the other routes, and
  the fault of each of its three RPC calls, when it has one (\<open>None\<close>: the server
  answers from the ledger). The two string operations of the JavaScript engine that the
  routes apply to the team name are part of it: \<open>te_trim\<close> is
  \<^verbatim>\<open>String.prototype.trim\<close> (it removes the white space and the line terminators
  of Unicode at both ends) and \<open>te_length\<close> is the \<^verbatim>\<open>length\<close> property (a
  count of UTF-16 code units).
\<close>

record team_env =
  te_DAO_CONTRACT_ID :: string
  te_fromPublicKey_ok :: "string \<Rightarrow> bool"
  te_loadAccount_error :: "string \<Rightarrow> string option"
  te_Contract_error :: "string option"
  te_get_team_fault :: "read_result option"
  te_get_user_team_fault :: "read_result option"
  te_prepare_fault :: "string option"
  te_trim :: "string \<Rightarrow> string"
  te_length :: "string \<Rightarrow> nat"

definition read_team :: "team_env \<Rightarrow> string \<Rightarrow> dao_store \<Rightarrow> read_result" where
  "read_team env team_name s =
     (case te_get_team_fault env of
        Some f \<Rightarrow> f
      | None \<Rightarrow> (case get_team team_name s of Inl e \<Rightarrow> ReadNoRetval | Inr t \<Rightarrow> ReadValue))"

definition read_user_team :: "team_env \<Rightarrow> string \<Rightarrow> dao_store \<Rightarrow> read_result" where
  "read_user_team env address s =
     (case te_get_user_team_fault env of
        Some f \<Rightarrow> f
      | None \<Rightarrow> (case get_user_team address s of None \<Rightarrow> ReadVoid | Some t \<Rightarrow> ReadValue))"

text \<open>
  \<^verbatim>\<open>sorobanServer.prepareTransaction\<close> simulates the transaction on the ledger and
  throws when the simulation fails.
\<close>

definition prepare_form_team :: "team_env \<Rightarrow> string \<Rightarrow> string list \<Rightarrow> dao_store \<Rightarrow> operation promise" where
  "prepare_form_team env team_name ms s =
     (case te_prepare_fault env of
        Some m \<Rightarrow> Rejected m
      | None \<Rightarrow>
          (case form_team team_name ms s of
             Inl e \<Rightarrow> Rejected ''simulation failed''
           | Inr s' \<Rightarrow> Fulfilled (Call_form_team team_name ms)))"

text \<open>Lines 136 to 218 of the creation route, and lines 128 to 212 of the join route.\<close>

definition check_user_and_prepare ::
  "team_env \<Rightarrow> string \<Rightarrow> string \<Rightarrow> dao_store \<Rightarrow> team_response" where
  "check_user_and_prepare env pk team_name s =
     (if read_user_team env pk s = ReadValue then TeamRouteError 400 AlreadyMember
      else
        (case prepare_form_team env team_name [pk] s of
           Rejected m \<Rightarrow> TeamRouteError 500 (RouteFailed m)
         | Fulfilled op \<Rightarrow> TeamPrepared op team_name))"

definition create_team ::
  "team_env \<Rightarrow> string \<Rightarrow> string \<Rightarrow> dao_store \<Rightarrow> team_response \<times> dao_store" where
  "create_team env pk body_teamName s =
     (if pk = [] \<or> body_teamName = [] then (TeamRouteError 400 MissingFields, s)
      else if te_length env (te_trim env body_teamName) < 2 \<or> te_length env (te_trim env body_teamName) > 32 then
        (TeamRouteError 400 BadTeamNameLength, s)
      else if \<not> te_fromPublicKey_ok env pk then (TeamRouteError 400 InvalidPublicKey, s)
      else if te_DAO_CONTRACT_ID env = [] then (TeamRouteError 500 DaoNotConfigured, s)
      else
        (case te_loadAccount_error env pk of
           Some m \<Rightarrow> (TeamRouteError 400 (AccountNotFound m), s)
         | None \<Rightarrow>
             (case te_Contract_error env of
                Some m \<Rightarrow> (TeamRouteError 500 (RouteFailed m), s)
              | None \<Rightarrow>
                  if read_team env (te_trim env body_teamName) s = ReadValue then
                    (TeamRouteError 400 (TeamExists (te_trim env body_teamName)), s)
                  else (check_user_and_prepare env pk (te_trim env body_teamName) s, s))))"

subsection \<open>Joining a team: \<^verbatim>\<open>src/unnamed/part_002\<close>\<close>

definition join_team ::
  "team_env \<Rightarrow> string \<Rightarrow> string \<Rightarrow> dao_store \<Rightarrow> team_response \<times> dao_store" where
  "join_team env pk body_teamName s =
     (if pk = [] \<or> body_teamName = [] then (TeamRouteError 400 MissingFields, s)
      else if \<not> te_fromPublicKey_ok env pk then (TeamRouteError 400 InvalidPublicKey, s)
      else if te_DAO_CONTRACT_ID env = [] then (TeamRouteError 500 DaoNotConfigured, s)
      else
        (case te_loadAccount_error env pk of
           Some m \<Rightarrow> (TeamRouteError 400 (AccountNotFound m), s)
         | None \<Rightarrow>
             (case te_Contract_error env of
                Some m \<Rightarrow> (TeamRouteError 500 (RouteFailed m), s)
              | None \<Rightarrow>
                  if read_team env (te_trim env body_teamName) s = ReadThrows
                     \<or> read_team env (te_trim env body_teamName) s = ReadVoid then
                    (TeamRouteError 400 (TeamDoesNotExist (te_trim env body_teamName)), s)
                  else (check_user_and_prepare env pk (te_trim env body_teamName) s, s))))"

section \<open>Concrete inputs\<close>

text \<open>
  An oracle that answers 1.0850 (in the oracle's 14 decimals), one that answers 1.0750,
  one whose call throws, one that answers 0, and one whose map carries the plain number
  \<open>2^(-1027)\<close> as its price.
\<close>

definition oracle_1_0850 :: "string \<Rightarrow> sim_lastprice" where
  "oracle_1_0850 = (\<lambda>a. SimRetval (ScvI128 (Some 108500000000000)))"

definition oracle_1_0750 :: "string \<Rightarrow> sim_lastprice" where
  "oracle_1_0750 = (\<lambda>a. SimRetval (ScvI128 (Some 107500000000000)))"

definition oracle_down :: "string \<Rightarrow> sim_lastprice" where
  "oracle_down = (\<lambda>a. SimThrows ''request failed'')"

definition oracle_zero :: "string \<Rightarrow> sim_lastprice" where
  "oracle_zero = (\<lambda>a. SimRetval (ScvI128 (Some 0)))"


definition env_up :: resolve_env where
  "env_up = \<lparr>DAO_CONTRACT_ID = ''CDAO'', REFLECTOR_CONTRACT_ID = ''CREFLECTOR'',
              contract_ctor_error = None, lastprice_sim = oracle_1_0850,
              clock = 1700000000000, random1 = 1 / 2, random2 = 1 / 4\<rparr>"

text \<open>
  A ledger with the prediction \<^verbatim>\<open>p1\<close> on EUR/USD, predicting a rise, not yet resolved,
  answered as an object whose \<^verbatim>\<open>_value\<close> is the array of the entries; the same
  ledger after the contract has resolved \<^verbatim>\<open>p1\<close>; the same prediction answered as
  an object without a \<^verbatim>\<open>_value\<close> array (as is the wrapper of which
  \<^verbatim>\<open>getLastPrice\<close> and \<^verbatim>\<open>getUserTeam\<close> read the field \<^verbatim>\<open>retval\<close>); and a
  ledger that cannot be reached.
\<close>

definition items_p1 :: "bool \<Rightarrow> pred_item list" where
  "items_p1 is_resolved =
     [Item (Some ''asset'') (JBuffer ''EUR/USD''),
      Item (Some ''prediction'') (JBool True),
      Item (Some ''resolved'') (JBool is_resolved)]"

definition ledger_p1 :: ledger_view where
  "ledger_p1 = (\<lambda>i. if i = ''p1'' then PredResult (ValueArray (items_p1 False))
                     else PredError ''Error(Contract, #6)'')"

definition ledger_p1_resolved :: ledger_view where
  "ledger_p1_resolved = (\<lambda>i. if i = ''p1'' then PredResult (ValueArray (items_p1 True))
                              else PredError ''Error(Contract, #6)'')"

definition ledger_p1_sdk :: ledger_view where
  "ledger_p1_sdk = (\<lambda>i. if i = ''p1'' then PredResult NoValueArray
                         else PredError ''Error(Contract, #6)'')"

definition ledger_unreachable :: ledger_view where
  "ledger_unreachable = (\<lambda>i. PredThrows ''fetch failed'')"

text \<open>
  The resolution of \<^verbatim>\<open>p1\<close> with the oracle at 1.0850: the prices are the doubles
  printed as 1.085 and 1.079575. \<open>resolution_p1_sdk\<close> is the one returned when the
  answer has no \<^verbatim>\<open>_value\<close> array.
\<close>

definition resolution_p1 :: resolution where
  "resolution_p1 =
     \<lparr>predictionId = ''p1'', outcome = True, currentPrice = dbl 1.085,
      historicalPrice = dbl (dbl 1.085 * dbl 0.995), rewardsDistributed = True,
      resolvedViaContract = True,
      contractData = Some \<lparr>cd_asset = ''EUR/USD'', cd_predictedDirection = JBool True,
                            cd_resolved = False\<rparr>,
      contractError = None\<rparr>"

definition resolution_p1_sdk :: resolution where
  "resolution_p1_sdk =
     \<lparr>predictionId = ''p1'', outcome = False, currentPrice = dbl 1.085,
      historicalPrice = dbl (dbl 1.085 * dbl 0.995), rewardsDistributed = False,
      resolvedViaContract = True,
      contractData = Some \<lparr>cd_asset = ''EUR/USD'', cd_predictedDirection = JBool False,
                            cd_resolved = False\<rparr>,
      contractError = None\<rparr>"

text \<open>
  A prepare-transaction environment in which every outside call succeeds, the team
  exists and the token contract holds 1,000,000 units for every address; and the request
  of the member \<^verbatim>\<open>GM\<close> of team alpha with a given stake percentage.
\<close>

definition prep_env :: "string \<Rightarrow> prepare_env" where
  "prep_env rnd36 =
     \<lparr>env_DAO_CONTRACT_ID = ''CDAO'', env_KALE_CONTRACT_ID = ''CKALE'',
      fromPublicKey_ok = (\<lambda>k. True), loadAccount_error = (\<lambda>k. None),
      Contract_error = None, get_team_sim = (\<lambda>t. TeamSimSuccess),
      prepareTransaction_error = (\<lambda>op. None), kale_balance_of = (\<lambda>a. 1000000),
      Date_now = 1700000000000, random_base36 = rnd36\<rparr>"

definition request_with :: "jsnum \<Rightarrow> PrepareTransactionRequest" where
  "request_with pct =
     \<lparr>publicKey = ''GM'', teamName = ''alpha'', stakePercentage = pct,
      prediction = Some (''EUR/USD'', True)\<rparr>"

text \<open>The store after \<^verbatim>\<open>form_team("alpha", [GM])\<close>, and an environment without faults.\<close>

definition store_alpha :: dao_store where
  "store_alpha = snd (invoke (form_team ''alpha'' [''GM'']) empty_store)"

definition ut_env_ok :: user_team_env where
  "ut_env_ok = \<lparr>ut_DAO_CONTRACT_ID = ''CDAO'', ut_fromPublicKey_ok = (\<lambda>k. True),
                 ut_Contract_throws = False, ut_rpc_fault = None\<rparr>"

section \<open>Properties of the rounding\<close>

lemma pow2_powr: "pow2 k = 2 powr of_int k"
proof (cases "0 \<le> k")
  case True
  have "(2::real) powr real (nat k) = 2 ^ nat k" by (simp add: powr_realpow)
  moreover have "real (nat k) = of_int k" using True by simp
  ultimately show ?thesis using True by (simp add: pow2_def)
next
  case False
  have "(2::real) powr real (nat (- k)) = 2 ^ nat (- k)" by (simp add: powr_realpow)
  moreover have "real (nat (- k)) = - of_int k" using False by simp
  ultimately have "(2::real) powr (- of_int k) = 2 ^ nat (- k)" by simp
  moreover have "(2::real) powr of_int k = 1 / 2 powr (- of_int k)"
    using powr_minus_divide[of "2::real" "- of_int k"] by simp
  ultimately have "(2::real) powr of_int k = 1 / 2 ^ nat (- k)" by simp
  then show ?thesis using False by (simp add: pow2_def)
qed

lemma exponent_bounds:
  assumes "x \<noteq> 0"
  shows "pow2 (exponent x) \<le> \<bar>x\<bar> \<and> \<bar>x\<bar> < pow2 (exponent x + 1)"
proof (cases "1 \<le> \<bar>x\<bar>")
  case True
  define n where "n = \<lfloor>\<bar>x\<bar>\<rfloor>"
  have n: "1 \<le> n" using True by (simp add: n_def le_floor_iff)
  then have b: "2 ^ nat (bitlen n - 1) \<le> n" "n < 2 ^ nat (bitlen n)"
    using bitlen_bounds[of n] by simp_all
  have b1: "1 \<le> bitlen n" using n by (simp add: bitlen_alt_def)
  have e: "exponent x = bitlen n - 1" using True by (simp add: exponent_def n_def)
  have "(2::real) ^ nat (bitlen n - 1) \<le> of_int n"
    using b(1) by (metis of_int_le_iff of_int_numeral of_int_power)
  also have "\<dots> \<le> \<bar>x\<bar>" by (simp add: n_def)
  finally have lo: "pow2 (exponent x) \<le> \<bar>x\<bar>" using e b1 by (simp add: pow2_def)
  have "n + 1 \<le> 2 ^ nat (bitlen n)" using b(2) by simp
  then have "of_int (n + 1) \<le> (2::real) ^ nat (bitlen n)"
    by (metis of_int_le_iff of_int_numeral of_int_power)
  moreover have "\<bar>x\<bar> < of_int (n + 1)" by (simp add: n_def)
  ultimately have "\<bar>x\<bar> < 2 ^ nat (bitlen n)" by linarith
  then have hi: "\<bar>x\<bar> < pow2 (exponent x + 1)" using e b1 by (simp add: pow2_def)
  show ?thesis using lo hi by simp
next
  case False
  define y where "y = 1 / \<bar>x\<bar>"
  define m where "m = \<lceil>y\<rceil> - 1"
  have x: "0 < \<bar>x\<bar>" "\<bar>x\<bar> < 1" using assms False by simp_all
  have y: "1 < y" using x by (simp add: y_def)
  have m: "1 \<le> m" using y by (simp add: m_def less_ceiling_iff)
  then have b: "2 ^ nat (bitlen m - 1) \<le> m" "m < 2 ^ nat (bitlen m)"
    using bitlen_bounds[of m] by simp_all
  have b1: "1 \<le> bitlen m" using m by (simp add: bitlen_alt_def)
  have e: "exponent x = - bitlen m" using False by (simp add: exponent_def m_def y_def)
  have "m + 1 \<le> 2 ^ nat (bitlen m)" using b(2) by simp
  then have "of_int (m + 1) \<le> (2::real) ^ nat (bitlen m)"
    by (metis of_int_le_iff of_int_numeral of_int_power)
  moreover have "y \<le> of_int (m + 1)" by (simp add: m_def)
  ultimately have "y \<le> 2 ^ nat (bitlen m)" by linarith
  then have "1 / 2 ^ nat (bitlen m) \<le> \<bar>x\<bar>"
    using x(1) by (simp add: y_def field_simps)
  then have lo: "pow2 (exponent x) \<le> \<bar>x\<bar>" using e b1 by (simp add: pow2_def)
  have "(2::real) ^ nat (bitlen m - 1) \<le> of_int m"
    using b(1) by (metis of_int_le_iff of_int_numeral of_int_power)
  moreover have "of_int m < y" by (simp add: m_def) linarith
  ultimately have "2 ^ nat (bitlen m - 1) < y" by linarith
  then have h: "\<bar>x\<bar> < 1 / 2 ^ nat (bitlen m - 1)"
    using x(1) by (simp add: y_def field_simps)
  have "pow2 (exponent x + 1) = 1 / 2 ^ nat (bitlen m - 1)"
  proof (cases "bitlen m = 1")
    case True
    then show ?thesis using e by (simp add: pow2_def)
  next
    case False
    then have "nat (- (exponent x + 1)) = nat (bitlen m - 1)" "\<not> 0 \<le> exponent x + 1"
      using e b1 by simp_all
    then show ?thesis by (simp add: pow2_def)
  qed
  then have hi: "\<bar>x\<bar> < pow2 (exponent x + 1)" using h by simp
  show ?thesis using lo hi by simp
qed

lemma exponent_log:
  assumes "x \<noteq> 0"
  shows "exponent x = \<lfloor>log 2 \<bar>x\<bar>\<rfloor>"
proof -
  have pos: "0 < \<bar>x\<bar>" using assms by simp
  have b: "2 powr of_int (exponent x) \<le> \<bar>x\<bar>" "\<bar>x\<bar> < 2 powr (of_int (exponent x) + 1)"
    using exponent_bounds[OF assms] by (simp_all add: pow2_powr)
  have "of_int (exponent x) \<le> log 2 \<bar>x\<bar>" using b(1) pos by (simp add: le_log_iff)
  moreover have "log 2 \<bar>x\<bar> < of_int (exponent x) + 1" using b(2) pos by (simp add: log_less_iff)
  ultimately show ?thesis by (intro floor_unique[symmetric]) simp_all
qed

lemma ulp_log:
  assumes "x \<noteq> 0"
  shows "ulp x = 2 powr of_int (max \<lfloor>log 2 \<bar>x\<bar>\<rfloor> (- 1022) - 52)"
  by (simp add: ulp_def pow2_powr exponent_log[OF assms])

lemma round_even_error: "\<bar>of_int (round_even y) - y\<bar> \<le> 1 / 2"
  unfolding round_even_def Let_def by (auto simp: abs_le_iff)

lemma round_even_nonneg: "0 \<le> y \<Longrightarrow> 0 \<le> round_even y"
  unfolding round_even_def Let_def by auto

lemma round_even_nonpos: "y \<le> 0 \<Longrightarrow> round_even y \<le> 0"
  unfolding round_even_def Let_def by (auto simp: floor_le_iff)

lemma ulp_pos: "0 < ulp x"
  by (simp add: ulp_def pow2_powr)

lemma dbl_nonneg: "0 \<le> x \<Longrightarrow> 0 \<le> dbl x"
  using round_even_nonneg[of "x / ulp x"] ulp_pos[of x] by (simp add: dbl_def)

lemma dbl_nonpos: "x \<le> 0 \<Longrightarrow> dbl x \<le> 0"
  using round_even_nonpos[of "x / ulp x"] ulp_pos[of x]
  by (simp add: dbl_def mult_le_0_iff divide_le_0_iff)

text \<open>The rounding error is at most half the distance between neighbouring doubles.\<close>

lemma dbl_ulp: "\<bar>dbl x - x\<bar> \<le> ulp x / 2"
proof (cases "x = 0")
  case True
  then show ?thesis using ulp_pos[of x] by (simp add: dbl_def)
next
  case False
  have "dbl x - x = (of_int (round_even (x / ulp x)) - x / ulp x) * ulp x"
    using False ulp_pos[of x] by (simp add: dbl_def field_simps)
  then have "\<bar>dbl x - x\<bar> = \<bar>of_int (round_even (x / ulp x)) - x / ulp x\<bar> * ulp x"
    using ulp_pos[of x] by (simp add: abs_mult)
  also have "\<dots> \<le> (1 / 2) * ulp x"
    using round_even_error[of "x / ulp x"] ulp_pos[of x] by (intro mult_right_mono) simp_all
  finally show ?thesis by simp
qed

lemma ulp_le:
  assumes "x \<noteq> 0"
  shows "ulp x \<le> \<bar>x\<bar> / 2 ^ 52 \<or> ulp x = 1 / 2 ^ 1074"
proof (cases "- 1022 \<le> \<lfloor>log 2 \<bar>x\<bar>\<rfloor>")
  case True
  have "max \<lfloor>log 2 \<bar>x\<bar>\<rfloor> (- 1022) = \<lfloor>log 2 \<bar>x\<bar>\<rfloor>"
    using True by (rule max_absorb1)
  then have "ulp x = 2 powr (of_int \<lfloor>log 2 \<bar>x\<bar>\<rfloor> - 52)"
    by (simp add: ulp_log[OF assms])
  also have "\<dots> = 2 powr of_int \<lfloor>log 2 \<bar>x\<bar>\<rfloor> / 2 ^ 52"
    by (simp add: powr_diff)
  also have "2 powr of_int \<lfloor>log 2 \<bar>x\<bar>\<rfloor> \<le> 2 powr log 2 \<bar>x\<bar>"
    by (intro powr_mono) simp_all
  also have "2 powr log 2 \<bar>x\<bar> = \<bar>x\<bar>" using assms by simp
  finally show ?thesis by (simp add: divide_right_mono)
next
  case False
  then have "max \<lfloor>log 2 \<bar>x\<bar>\<rfloor> (- 1022) = - 1022"
    by (intro max_absorb2) simp
  then have "ulp x = 2 powr (- 1074)" by (simp add: ulp_log[OF assms])
  then show ?thesis by (simp add: powr_minus_divide)
qed

text \<open>
  The standard model of double arithmetic: a relative error of at most \<open>2^(-53)\<close>, and
  an absolute error of at most \<open>2^(-1075)\<close> in the subnormal range.
\<close>

lemma dbl_error: "\<bar>dbl x - x\<bar> \<le> \<bar>x\<bar> / 2 ^ 53 + 1 / 2 ^ 1075"
proof (cases "x = 0")
  case True
  then show ?thesis by (simp add: dbl_def)
next
  case False
  from ulp_le[OF False] show ?thesis
  proof
    assume "ulp x \<le> \<bar>x\<bar> / 2 ^ 52"
    then have "ulp x / 2 \<le> \<bar>x\<bar> / 2 ^ 53" by simp
    moreover have "(0::real) \<le> 1 / 2 ^ 1075" by simp
    ultimately show ?thesis using dbl_ulp[of x] by linarith
  next
    assume "ulp x = 1 / 2 ^ 1074"
    then have "ulp x / 2 = 1 / 2 ^ 1075" by simp
    moreover have "0 \<le> \<bar>x\<bar> / 2 ^ 53" by simp
    ultimately show ?thesis using dbl_ulp[of x] by linarith
  qed
qed

lemma dbl_rough: "\<bar>dbl x - x\<bar> \<le> \<bar>x\<bar> / 1000000 + 1 / 1000000"
proof -
  have "\<bar>x\<bar> / 2 ^ 53 \<le> \<bar>x\<bar> / 1000000"
    by (intro divide_left_mono) simp_all
  moreover have "(1::real) / 2 ^ 1075 \<le> 1 / 1000000"
    by (intro divide_left_mono) simp_all
  ultimately show ?thesis using dbl_error[of x] by linarith
qed

lemma dbl_rough_bound:
  assumes "\<bar>x\<bar> \<le> b"
  shows "\<bar>dbl x\<bar> \<le> b + b / 1000000 + 1 / 1000000"
  using dbl_rough[of x] assms by linarith

lemma dbl_rough_interval:
  assumes "lo \<le> x" "x \<le> hi" "0 \<le> lo"
  shows "lo - hi / 1000000 - 1 / 1000000 \<le> dbl x \<and> dbl x \<le> hi + hi / 1000000 + 1 / 1000000"
proof -
  have "\<bar>x\<bar> = x" using assms by simp
  then have "\<bar>dbl x - x\<bar> \<le> x / 1000000 + 1 / 1000000" using dbl_rough[of x] by simp
  then have "dbl x - x \<le> x / 1000000 + 1 / 1000000" "x - dbl x \<le> x / 1000000 + 1 / 1000000"
    by (simp_all add: abs_le_iff)
  then show ?thesis using assms by linarith
qed

text \<open>How to compute \<open>dbl\<close> at a given number.\<close>

lemma ulp_normal:
  assumes "2 powr of_int k \<le> \<bar>x\<bar>" "\<bar>x\<bar> < 2 powr (of_int k + 1)" "- 1022 \<le> k"
  shows "ulp x = 2 powr of_int (k - 52)"
proof -
  have pos: "0 < \<bar>x\<bar>" using assms(1) powr_gt_zero[of 2 "of_int k"] by linarith
  have "of_int k \<le> log 2 \<bar>x\<bar>" using assms(1) pos by (simp add: le_log_iff)
  moreover have "log 2 \<bar>x\<bar> < of_int k + 1" using assms(2) pos by (simp add: log_less_iff)
  ultimately have "\<lfloor>log 2 \<bar>x\<bar>\<rfloor> = k" by (intro floor_unique) simp_all
  moreover have "x \<noteq> 0" using pos by simp
  ultimately show ?thesis using assms(3) by (simp add: ulp_log max_def)
qed


lemma dbl_normal:
  assumes "2 powr of_int k \<le> \<bar>x\<bar>" "\<bar>x\<bar> < 2 powr (of_int k + 1)" "- 1022 \<le> k"
  shows "dbl x = of_int (round_even (x / 2 powr of_int (k - 52))) * 2 powr of_int (k - 52)"
proof -
  have "0 < \<bar>x\<bar>" using assms(1) powr_gt_zero[of 2 "of_int k"] by linarith
  then have "x \<noteq> 0" by simp
  then show ?thesis using ulp_normal[OF assms] by (simp add: dbl_def)
qed


text \<open>The doubles of the literals of the code, and of the prices of the runs below.\<close>

lemma dbl_0: "dbl 0 = 0"
  by (simp add: dbl_def)

lemma dbl_1: "dbl 1 = 1"
  using dbl_normal[of 0 1] by (simp add: round_even_def powr_minus_divide)

lemma dbl_0995: "dbl 0.995 = 8962163258467287 / 2 ^ 53"
  using dbl_normal[of "- 1" "0.995"] by (simp add: round_even_def powr_minus_divide)

lemma dbl_002: "dbl 0.02 = 5764607523034235 / 2 ^ 58"
  using dbl_normal[of "- 6" "0.02"] by (simp add: round_even_def powr_minus_divide)

lemma dbl_108: "dbl 1.08 = 4863887597560136 / 2 ^ 52"
  using dbl_normal[of 0 "1.08"] by (simp add: round_even_def powr_minus_divide)

lemma dbl_107: "dbl 1.07 = 4818851601286431 / 2 ^ 52"
  using dbl_normal[of 0 "1.07"] by (simp add: round_even_def powr_minus_divide)

lemma dbl_1085: "dbl 1.085 = 4886405595696988 / 2 ^ 52"
  using dbl_normal[of 0 "1.085"] by (simp add: round_even_def powr_minus_divide)

lemma dbl_1075: "dbl 1.075 = 4841369599423283 / 2 ^ 52"
  using dbl_normal[of 0 "1.075"] by (simp add: round_even_def powr_minus_divide)

lemma dbl_105: "dbl 1.05 = 4728779608739021 / 2 ^ 52"
  using dbl_normal[of 0 "1.05"] by (simp add: round_even_def powr_minus_divide)


lemma dbl_dbl_108: "dbl (dbl 1.08) = dbl 1.08"
  unfolding dbl_108
  using dbl_normal[of 0 "4863887597560136 / 2 ^ 52"]
  by (simp add: round_even_def powr_minus_divide)

text \<open>The reference prices of the runs below: 1.079575 and 1.069625 as doubles.\<close>

lemma hist_1085: "dbl (dbl 1.085 * dbl 0.995) = 4861973567718503 / 2 ^ 52"
  unfolding dbl_1085 dbl_0995
  using dbl_normal[of 0 "(4886405595696988 / 2 ^ 52) * (8962163258467287 / 2 ^ 53)"]
  by (simp add: round_even_def powr_minus_divide)

lemma hist_1075: "dbl (dbl 1.075 * dbl 0.995) = 4817162751426167 / 2 ^ 52"
  unfolding dbl_1075 dbl_0995
  using dbl_normal[of 0 "(4841369599423283 / 2 ^ 52) * (8962163258467287 / 2 ^ 53)"]
  by (simp add: round_even_def powr_minus_divide)




section \<open>Properties of the resolution endpoint\<close>

lemma basePrice_ge_1: "1 \<le> basePrice s"
  unfolding basePrice_def dbl_108 by simp

text \<open>The mock price lies within 1.1 percent of the base price.\<close>

lemma generateMockPrice_bounds:
  assumes "0 \<le> r" "r < 1"
  shows "basePrice s * 0.989 \<le> generateMockPrice s r \<and> generateMockPrice s r \<le> basePrice s * 1.011"
proof -
  define a where "a = dbl (r - 0.5)"
  define c where "c = dbl 0.02"
  define v where "v = dbl (a * c)"
  define w where "w = dbl (1 + v)"
  define B where "B = basePrice s"
  define T where "T = B * w"
  define g where "g = dbl T"
  have "\<bar>r - 1 / 2\<bar> \<le> 1 / 2" using assms by linarith
  then have a: "\<bar>a\<bar> \<le> 500002 / 1000000"
    using dbl_rough_bound[of "r - 1 / 2" "1 / 2"] unfolding a_def by simp
  have c: "0 \<le> c" "c \<le> 200001 / 10000000" unfolding c_def dbl_002 by simp_all
  have "\<bar>a\<bar> * c \<le> (500002 / 1000000) * (200001 / 10000000)"
    using a c by (intro mult_mono) simp_all
  then have ac: "\<bar>a * c\<bar> \<le> 100002 / 10000000" using c(1) by (simp add: abs_mult)
  have v: "\<bar>v\<bar> \<le> 100013 / 10000000"
    using dbl_rough_bound[OF ac] unfolding v_def by simp
  have "9899987 / 10000000 \<le> 1 + v" "1 + v \<le> 10100013 / 10000000"
    using v by linarith+
  then have w: "98999 / 100000 \<le> w" "w \<le> 101001 / 100000"
    using dbl_rough_interval[of "9899987 / 10000000" "1 + v" "10100013 / 10000000"]
    unfolding w_def by simp_all
  have B: "1 \<le> B" unfolding B_def by (rule basePrice_ge_1)
  have T: "B * (98999 / 100000) \<le> T" "T \<le> B * (101001 / 100000)"
    unfolding T_def using w B by (intro mult_left_mono; simp)+
  have "0 \<le> B * (98999 / 100000)" using B by simp
  then have "B * (98999 / 100000) - B * (101001 / 100000) / 1000000 - 1 / 1000000 \<le> dbl T \<and>
             dbl T \<le> B * (101001 / 100000) + B * (101001 / 100000) / 1000000 + 1 / 1000000"
    using T by (intro dbl_rough_interval)
  then have g: "B * (989 / 1000) \<le> g" "g \<le> B * (1011 / 1000)"
    using B unfolding g_def by linarith+
  show ?thesis
    using g unfolding g_def T_def w_def v_def c_def a_def B_def generateMockPrice_def Let_def
    by simp
qed

lemma generateMockPrice_pos:
  assumes "0 \<le> r" "r < 1"
  shows "0 < generateMockPrice s r"
proof -
  have "basePrice s * (989 / 1000) \<le> generateMockPrice s r"
    using generateMockPrice_bounds[OF assms, of s] by simp
  then show ?thesis using basePrice_ge_1[of s] by linarith
qed


text \<open>
  The mock price of BTC/USD for the draw 0.75: the double printed as 45224.99999999999
  (the product of the reals is 45225).
\<close>

lemma generateMockPrice_BTC_example:
  "generateMockPrice ''BTC/USD'' (3 / 4) = 6215676670771199 / 2 ^ 37"
proof -
  have a: "dbl (1 / 4) = 1 / 4"
    using dbl_normal[of "- 2" "1 / 4"] by (simp add: round_even_def powr_minus_divide)
  have b: "dbl (1 / 4 * (5764607523034235 / 2 ^ 58)) = 5764607523034235 / 2 ^ 60"
    using dbl_normal[of "- 8" "1 / 4 * (5764607523034235 / 2 ^ 58)"]
    by (simp add: round_even_def powr_minus_divide)
  have c: "dbl (1 + 5764607523034235 / 2 ^ 60) = 4526117625507348 / 2 ^ 52"
    using dbl_normal[of 0 "1 + 5764607523034235 / 2 ^ 60"]
    by (simp add: round_even_def powr_minus_divide)
  have d: "dbl (45000 * (4526117625507348 / 2 ^ 52)) = 6215676670771199 / 2 ^ 37"
    using dbl_normal[of 15 "45000 * (4526117625507348 / 2 ^ 52)"]
    by (simp add: round_even_def powr_minus_divide)
  have "generateMockPrice ''BTC/USD'' (3 / 4) =
          dbl (45000 * dbl (1 + dbl (dbl (1 / 4) * (5764607523034235 / 2 ^ 58))))"
    unfolding generateMockPrice_def basePrice_def Let_def dbl_002 by simp
  also have "\<dots> = 6215676670771199 / 2 ^ 37" unfolding a b c d by simp
  finally show ?thesis .
qed

text \<open>\<^verbatim>\<open>getLastPrice\<close> in closed form: the \<^verbatim>\<open>try\<close> block and its \<^verbatim>\<open>catch\<close>.\<close>

lemma getLastPrice_eq:
  "getLastPrice orc s now r =
     Fulfilled
       (case orc (assetParam s) of
          SimThrows e \<Rightarrow> mock_data s now r
        | SimNoRetval \<Rightarrow> mock_data s now r
        | SimRetval cv \<Rightarrow>
            if is_object cv \<and> 0 < fst (read_price cv now) \<and> valid_date (snd (read_price cv now))
            then \<lparr>price = fst (read_price cv now), timestamp = snd (read_price cv now)\<rparr>
            else mock_data s now r)"
  unfolding getLastPrice_def getLastPrice_try_def
  by (auto split: sim_lastprice.splits prod.splits)

lemma getLastPrice_fulfilled: "\<exists>d. getLastPrice orc s now r = Fulfilled d"
  unfolding getLastPrice_eq by blast

lemma getLastPrice_cases:
  assumes "getLastPrice orc s now r = Fulfilled d"
  shows "d = mock_data s now r \<or>
         (\<exists>cv. orc (assetParam s) = SimRetval cv \<and> is_object cv \<and>
               d = \<lparr>price = fst (read_price cv now), timestamp = snd (read_price cv now)\<rparr> \<and>
               0 < price d \<and> valid_date (timestamp d))"
  using assms unfolding getLastPrice_eq
  by (auto split: sim_lastprice.splits if_splits)

lemma getLastPrice_pos:
  assumes "0 \<le> r" "r < 1" "getLastPrice orc s now r = Fulfilled d"
  shows "0 < price d"
  using getLastPrice_cases[OF assms(3)] generateMockPrice_pos[OF assms(1,2), of s]
  by (auto simp: mock_data_def)

lemma getLastPrice_valid_time:
  assumes "valid_date now" "getLastPrice orc s now r = Fulfilled d"
  shows "valid_date (timestamp d)"
  using getLastPrice_cases[OF assms(2)] assms(1) by (auto simp: mock_data_def)

lemma getLastPrice_failed_fetch:
  assumes "(\<exists>e. orc (assetParam s) = SimThrows e) \<or> orc (assetParam s) = SimNoRetval \<or>
           (\<exists>cv. orc (assetParam s) = SimRetval cv \<and> fst (read_price cv now) \<le> 0)"
  shows "getLastPrice orc s now r = Fulfilled (mock_data s now r)"
  using assms unfolding getLastPrice_eq by auto

lemma read_price_I128: "read_price (ScvI128 (Some x)) now = (dbl (x / 100000000000000), now)"
  by (simp add: read_price_def)

lemma read_price_map:
  "read_price (ScvMap [(Some ''price'', Some (ScvI128 (Some x))),
                       (Some ''timestamp'', Some (ScvU64 (Some t)))]) now
     = (dbl (x / 100000000000000), dbl (t * 1000))"
  by (simp add: read_price_def val_truthy_def)

lemma read_price_nonpos: "x \<le> 0 \<Longrightarrow> fst (read_price (ScvI128 (Some x)) now) \<le> 0"
  unfolding read_price_I128 by (simp add: dbl_nonpos divide_le_0_iff)

text \<open>A price read from an \<^verbatim>\<open>scvI128\<close> of at least 1 is at least about 1e-14.\<close>

lemma I128_price_large:
  assumes "1 \<le> x"
  shows "1 / 10 ^ 300 \<le> dbl (x / 100000000000000)"
proof -
  define y where "y = x / 100000000000000"
  define z where "z = y / 2 ^ 53"
  define eta :: real where "eta = 1 / 2 ^ 1075"
  define t :: real where "t = 1 / 10 ^ 300"
  have y: "1 / 100000000000000 \<le> y" using assms by (simp add: y_def divide_right_mono)
  have z: "z \<le> y / 2" "0 \<le> z" using y by (simp_all add: z_def)
  have e: "eta \<le> 1 / 1000000000000000" "t \<le> 1 / 1000000000000000"
    by (simp_all add: eta_def t_def)
  have "y - z - eta \<le> dbl y"
    using dbl_error[of y] y by (simp add: abs_le_iff z_def eta_def)
  then have "t \<le> dbl y" using y z e by linarith
  then show ?thesis by (simp add: t_def y_def)
qed

lemma getLastPrice_I128:
  assumes "0 < dbl (x / 100000000000000)" "valid_date now"
  shows "getLastPrice (\<lambda>a. SimRetval (ScvI128 (Some x))) s now r =
           Fulfilled \<lparr>price = dbl (x / 100000000000000), timestamp = now\<rparr>"
  using assms unfolding getLastPrice_eq by (simp add: read_price_I128 is_object_def)

lemma currentPriceData_eq:
  "getLastPrice (lastprice_sim env) ''EUR/USD'' (clock env) (random1 env) =
     Fulfilled (currentPriceData env)"
  using getLastPrice_fulfilled[of "lastprice_sim env" "''EUR/USD''" "clock env" "random1 env"]
  by (auto simp: currentPriceData_def)



lemma currentPriceData_I128:
  assumes "lastprice_sim env ''EUR'' = SimRetval (ScvI128 (Some x))" "1 \<le> x"
    "valid_date (clock env)"
  shows "currentPriceData env = \<lparr>price = dbl (x / 100000000000000), timestamp = clock env\<rparr>"
proof -
  have "(0::real) < 1 / 10 ^ 300" by simp
  then have "0 < dbl (x / 100000000000000)" using I128_price_large[OF assms(2)] by linarith
  then have "getLastPrice (lastprice_sim env) ''EUR/USD'' (clock env) (random1 env) =
          Fulfilled \<lparr>price = dbl (x / 100000000000000), timestamp = clock env\<rparr>"
    using assms(1,3) unfolding getLastPrice_eq
    by (simp add: read_price_I128 is_object_def assetParam_def)
  then show ?thesis using currentPriceData_eq[of env] by simp
qed

lemma oracle_resolution_outcome:
  "outcome (oracle_resolution env pid p) =
     predictionCorrect (predictedDirection p)
       (actualPriceWentUp (currentPrice (oracle_resolution env pid p))
                          (historicalPrice (oracle_resolution env pid p)))"
  by (simp add: oracle_resolution_def Let_def)

lemma oracle_resolution_contractData:
  "contractData (oracle_resolution env pid p) =
     Some \<lparr>cd_asset = asset p, cd_predictedDirection = predictedDirection p, cd_resolved = False\<rparr>"
  by (simp add: oracle_resolution_def Let_def)





text \<open>The resolutions the handler can return.\<close>

lemma GET_Resolution_cases:
  assumes "fst (GET env param ledger) = Resolution r"
  shows "(\<exists>pid m. param = Some pid \<and> r = simulated_resolution env pid m) \<or>
         (\<exists>pid p. param = Some pid \<and> r = oracle_resolution env pid p \<and>
            (ledger pid = PredResult NoValueArray \<and> p = initial_parsed \<or>
             (\<exists>items. ledger pid = PredResult (ValueArray items) \<and> p = parse_items items initial_parsed)))"
  using assms unfolding GET_def
  by (auto split: option.splits if_splits sim_prediction.splits prediction_data.splits)

lemma GET_frame: "snd (GET env param ledger) = ledger"
  by (simp add: GET_def split: option.splits sim_prediction.splits prediction_data.splits)

lemma GET_main_path:
  assumes "pid \<noteq> []" "DAO_CONTRACT_ID env \<noteq> []" "REFLECTOR_CONTRACT_ID env \<noteq> []"
    "contract_ctor_error env = None" "ledger pid = PredResult (ValueArray items)"
  shows "GET env (Some pid) ledger =
           (Resolution (oracle_resolution env pid (parse_items items initial_parsed)), ledger)"
  using assms by (simp add: GET_def)

lemma GET_no_value_array:
  assumes "pid \<noteq> []" "DAO_CONTRACT_ID env \<noteq> []" "REFLECTOR_CONTRACT_ID env \<noteq> []"
    "contract_ctor_error env = None" "ledger pid = PredResult NoValueArray"
  shows "GET env (Some pid) ledger = (Resolution (oracle_resolution env pid initial_parsed), ledger)"
  using assms by (simp add: GET_def)

lemma GET_read_throws:
  assumes "pid \<noteq> []" "DAO_CONTRACT_ID env \<noteq> []" "REFLECTOR_CONTRACT_ID env \<noteq> []"
    "contract_ctor_error env = None" "ledger pid = PredThrows m"
  shows "GET env (Some pid) ledger = (Resolution (simulated_resolution env pid m), ledger)"
  using assms by (simp add: GET_def)





text \<open>The runs of the concrete inputs.\<close>

lemma env_up_configured:
  "''p1'' \<noteq> []" "DAO_CONTRACT_ID (env_up\<lparr>lastprice_sim := orc, random1 := r1\<rparr>) \<noteq> []"
  "REFLECTOR_CONTRACT_ID (env_up\<lparr>lastprice_sim := orc, random1 := r1\<rparr>) \<noteq> []"
  "contract_ctor_error (env_up\<lparr>lastprice_sim := orc, random1 := r1\<rparr>) = None"
  "DAO_CONTRACT_ID env_up \<noteq> []" "REFLECTOR_CONTRACT_ID env_up \<noteq> []"
  "contract_ctor_error env_up = None"
  by (simp_all add: env_up_def)

lemma currentPriceData_env_up:
  "currentPriceData env_up = \<lparr>price = dbl 1.085, timestamp = 1700000000000\<rparr>"
proof -
  have "currentPriceData env_up =
          \<lparr>price = dbl (108500000000000 / 100000000000000), timestamp = clock env_up\<rparr>"
    by (rule currentPriceData_I128) (simp_all add: env_up_def oracle_1_0850_def valid_date_def)
  then show ?thesis by (simp add: env_up_def)
qed

lemma currentPriceData_1_0750:
  "currentPriceData (env_up\<lparr>lastprice_sim := oracle_1_0750\<rparr>) =
     \<lparr>price = dbl 1.075, timestamp = 1700000000000\<rparr>"
proof -
  have "currentPriceData (env_up\<lparr>lastprice_sim := oracle_1_0750\<rparr>) =
          \<lparr>price = dbl (107500000000000 / 100000000000000),
           timestamp = clock (env_up\<lparr>lastprice_sim := oracle_1_0750\<rparr>)\<rparr>"
    by (rule currentPriceData_I128) (simp_all add: env_up_def oracle_1_0750_def valid_date_def)
  then show ?thesis by (simp add: env_up_def)
qed

lemma rise_1085: "dbl (dbl 1.085 * dbl 0.995) < dbl 1.085"
  by (subst hist_1085, subst dbl_1085) simp

lemma rise_1075: "dbl (dbl 1.075 * dbl 0.995) < dbl 1.075"
  by (subst hist_1075, subst dbl_1075) simp

lemma oracle_resolution_env_up:
  "oracle_resolution env_up pid p =
     \<lparr>predictionId = pid, outcome = (predictedDirection p = JBool True),
      currentPrice = dbl 1.085, historicalPrice = dbl (dbl 1.085 * dbl 0.995),
      rewardsDistributed = (predictedDirection p = JBool True), resolvedViaContract = True,
      contractData = Some \<lparr>cd_asset = asset p, cd_predictedDirection = predictedDirection p,
                            cd_resolved = False\<rparr>,
      contractError = None\<rparr>"
  unfolding oracle_resolution_def Let_def currentPriceData_env_up
  using rise_1085 by (simp add: actualPriceWentUp_def predictionCorrect_def)

lemma oracle_resolution_1_0750:
  "oracle_resolution (env_up\<lparr>lastprice_sim := oracle_1_0750\<rparr>) pid p =
     \<lparr>predictionId = pid, outcome = (predictedDirection p = JBool True),
      currentPrice = dbl 1.075, historicalPrice = dbl (dbl 1.075 * dbl 0.995),
      rewardsDistributed = (predictedDirection p = JBool True), resolvedViaContract = True,
      contractData = Some \<lparr>cd_asset = asset p, cd_predictedDirection = predictedDirection p,
                            cd_resolved = False\<rparr>,
      contractError = None\<rparr>"
  unfolding oracle_resolution_def Let_def currentPriceData_1_0750
  using rise_1075 by (simp add: actualPriceWentUp_def predictionCorrect_def)

lemma parse_items_p1:
  "parse_items (items_p1 b) initial_parsed =
     \<lparr>asset = ''EUR/USD'', predictedDirection = JBool True, resolved = JBool b\<rparr>"
  by (simp add: items_p1_def initial_parsed_def)

lemma GET_env_up_p1:
  "GET env_up (Some ''p1'') ledger_p1 = (Resolution resolution_p1, ledger_p1)"
proof -
  have "GET env_up (Some ''p1'') ledger_p1 =
          (Resolution (oracle_resolution env_up ''p1'' (parse_items (items_p1 False) initial_parsed)),
           ledger_p1)"
    by (rule GET_main_path) (simp_all add: env_up_def ledger_p1_def)
  then show ?thesis
    by (simp add: oracle_resolution_env_up parse_items_p1 resolution_p1_def)
qed

lemma GET_env_up_p1_resolved:
  "GET env_up (Some ''p1'') ledger_p1_resolved = (Resolution resolution_p1, ledger_p1_resolved)"
proof -
  have "GET env_up (Some ''p1'') ledger_p1_resolved =
          (Resolution (oracle_resolution env_up ''p1'' (parse_items (items_p1 True) initial_parsed)),
           ledger_p1_resolved)"
    by (rule GET_main_path) (simp_all add: env_up_def ledger_p1_resolved_def)
  then show ?thesis
    by (simp add: oracle_resolution_env_up parse_items_p1 resolution_p1_def)
qed

lemma GET_env_up_p1_sdk:
  "GET env_up (Some ''p1'') ledger_p1_sdk = (Resolution resolution_p1_sdk, ledger_p1_sdk)"
proof -
  have "GET env_up (Some ''p1'') ledger_p1_sdk =
          (Resolution (oracle_resolution env_up ''p1'' initial_parsed), ledger_p1_sdk)"
    by (rule GET_no_value_array) (simp_all add: env_up_def ledger_p1_sdk_def)
  then show ?thesis
    by (simp add: oracle_resolution_env_up initial_parsed_def resolution_p1_sdk_def)
qed

lemma GET_1_0750_p1:
  "GET (env_up\<lparr>lastprice_sim := oracle_1_0750\<rparr>) (Some ''p1'') ledger_p1 =
     (Resolution \<lparr>predictionId = ''p1'', outcome = True, currentPrice = dbl 1.075,
                  historicalPrice = dbl (dbl 1.075 * dbl 0.995), rewardsDistributed = True,
                  resolvedViaContract = True,
                  contractData = Some \<lparr>cd_asset = ''EUR/USD'', cd_predictedDirection = JBool True,
                                        cd_resolved = False\<rparr>,
                  contractError = None\<rparr>, ledger_p1)"
proof -
  have "GET (env_up\<lparr>lastprice_sim := oracle_1_0750\<rparr>) (Some ''p1'') ledger_p1 =
          (Resolution (oracle_resolution (env_up\<lparr>lastprice_sim := oracle_1_0750\<rparr>) ''p1''
                         (parse_items (items_p1 False) initial_parsed)), ledger_p1)"
    by (rule GET_main_path) (simp_all add: env_up_def ledger_p1_def)
  then show ?thesis
    by (simp add: oracle_resolution_1_0750 parse_items_p1)
qed

text \<open>
  The fallback path: the contract read throws. With the draw 0.75 the mock price is 1.05,
  a rise over 1.0, and with the draw 0.5 it is 0.95, a fall; the predicted direction is
  the guess, false for the id \<^verbatim>\<open>p1\<close> and the second draw 0.25.
\<close>

lemma GET_fallback_rise:
  "GET (env_up\<lparr>random1 := 3 / 4\<rparr>) (Some ''p1'') ledger_unreachable =
     (Resolution \<lparr>predictionId = ''p1'', outcome = False, currentPrice = dbl 1.05,
                  historicalPrice = 1, rewardsDistributed = True, resolvedViaContract = False,
                  contractData = None, contractError = Some ''fetch failed''\<rparr>,
      ledger_unreachable)"
proof -
  have gt: "1 < dbl 1.05" unfolding dbl_105 by simp
  have "GET (env_up\<lparr>random1 := 3 / 4\<rparr>) (Some ''p1'') ledger_unreachable =
          (Resolution (simulated_resolution (env_up\<lparr>random1 := 3 / 4\<rparr>) ''p1'' ''fetch failed''),
           ledger_unreachable)"
    by (rule GET_read_throws) (simp_all add: env_up_def ledger_unreachable_def)
  moreover have "simulated_resolution (env_up\<lparr>random1 := 3 / 4\<rparr>) ''p1'' ''fetch failed'' =
      \<lparr>predictionId = ''p1'', outcome = False, currentPrice = dbl 1.05,
       historicalPrice = 1, rewardsDistributed = True, resolvedViaContract = False,
       contractData = None, contractError = Some ''fetch failed''\<rparr>"
    using gt by (simp add: simulated_resolution_def env_up_def Let_def)
  ultimately show ?thesis by simp
qed



text \<open>
  The handler is a read-only simulation. No call changes the ledger. Whenever the
  prediction can be read from the contract, whatever its \<^verbatim>\<open>resolved\<close> flag, the call
  returns a resolution (reporting \<^verbatim>\<open>resolved: false\<close>), and a second call in the
  same environment returns what the first returned.
\<close>

lemma GET_is_stateless:
  assumes "pid \<noteq> []" "DAO_CONTRACT_ID env \<noteq> []" "REFLECTOR_CONTRACT_ID env \<noteq> []"
    "contract_ctor_error env = None" "ledger pid = PredResult (ValueArray items)"
  shows "snd (GET env param ledger) = ledger
         \<and> GET env (Some pid) (snd (GET env (Some pid) ledger)) = GET env (Some pid) ledger
         \<and> (\<exists>r. fst (GET env (Some pid) ledger) = Resolution r \<and>
                 resolvedViaContract r \<and>
                 contractData r =
                   Some \<lparr>cd_asset = asset (parse_items items initial_parsed),
                         cd_predictedDirection = predictedDirection (parse_items items initial_parsed),
                         cd_resolved = False\<rparr> \<and>
                 outcome r = predictionCorrect (predictedDirection (parse_items items initial_parsed))
                               (actualPriceWentUp (currentPrice r) (historicalPrice r)))"
  using assms GET_main_path[of pid env ledger items] GET_frame[of env param ledger]
    oracle_resolution_outcome[of env pid "parse_items items initial_parsed"]
    oracle_resolution_contractData[of env pid "parse_items items initial_parsed"]
  by (simp add: oracle_resolution_def Let_def)

text \<open>
  \<^verbatim>\<open>mockResolution\<close> with the draws 0.25 and 0.75: the sums round to
  1.0750000000000002 and 1.075, a rise.
\<close>

lemma mockResolution_quarter_draws: "outcome (mockResolution pid (1 / 4) (3 / 4))"
proof -
  have a: "dbl (- (1 / 4)) = - (1 / 4)" "dbl (1 / 4) = 1 / 4"
    using dbl_normal[of "- 2" "- (1 / 4)"] dbl_normal[of "- 2" "1 / 4"]
    by (simp_all add: round_even_def powr_minus_divide)
  have b: "dbl (- (1 / 4) * (5764607523034235 / 2 ^ 58)) = - (5764607523034235 / 2 ^ 60)"
    "dbl (1 / 4 * (5764607523034235 / 2 ^ 58)) = 5764607523034235 / 2 ^ 60"
    using dbl_normal[of "- 8" "- (1 / 4) * (5764607523034235 / 2 ^ 58)"]
      dbl_normal[of "- 8" "1 / 4 * (5764607523034235 / 2 ^ 58)"]
    by (simp_all add: round_even_def powr_minus_divide)
  have c: "dbl (4863887597560136 / 2 ^ 52 + - (5764607523034235 / 2 ^ 60)) = 4841369599423284 / 2 ^ 52"
    using dbl_normal[of 0 "4863887597560136 / 2 ^ 52 + - (5764607523034235 / 2 ^ 60)"]
    by (simp add: round_even_def powr_minus_divide)
  have d: "dbl (4818851601286431 / 2 ^ 52 + 5764607523034235 / 2 ^ 60) = 4841369599423283 / 2 ^ 52"
    using dbl_normal[of 0 "4818851601286431 / 2 ^ 52 + 5764607523034235 / 2 ^ 60"]
    by (simp add: round_even_def powr_minus_divide)
  have "outcome (mockResolution pid (1 / 4) (3 / 4)) =
          (dbl (4818851601286431 / 2 ^ 52 + dbl (dbl (1 / 4) * (5764607523034235 / 2 ^ 58)))
           < dbl (4863887597560136 / 2 ^ 52 + dbl (dbl (- (1 / 4)) * (5764607523034235 / 2 ^ 58))))"
    unfolding mockResolution_def Let_def dbl_108 dbl_107 dbl_002 by simp
  also have "\<dots>" unfolding a b c d by simp
  finally show ?thesis .
qed

section \<open>Properties of the prepare-transaction endpoint\<close>

lemma outer_catch_error: "\<exists>c t. outer_catch m = PrepareError c t"
  by (simp add: outer_catch_def)

lemma BigInt_Fulfilled: "(BigInt x = Fulfilled p) = (x = of_int p)"
  by (auto simp: BigInt_def)

lemma BigInt_of_int: "BigInt (of_int p) = Fulfilled p"
  by (simp add: BigInt_def)

lemma stakeAmount_exact: "stakeAmount p = 10000000 * p"
proof -
  have "(kaleBalance * p) sdiv 100 = sgn p * (\<bar>1000000000 * p\<bar> div 100)"
    by (simp add: signed_divide_int_def kaleBalance_def sgn_mult)
  also have "\<bar>1000000000 * p\<bar> = 100 * (10000000 * \<bar>p\<bar>)"
    by (simp add: abs_mult)
  also have "sgn p * (100 * (10000000 * \<bar>p\<bar>) div 100) = 10000000 * (sgn p * \<bar>p\<bar>)"
    by simp
  finally show ?thesis by (simp add: stakeAmount_def sgn_mult_abs)
qed

lemma build_transaction_amount:
  assumes "build_transaction env body amount = Prepared resp"
    "xdr resp = Call_make_prediction i t a d amount' pct pk"
  shows "amount' = amount \<and> pct = stakePercentage body \<and> t = teamName body \<and> pk = publicKey body
         \<and> i = make_predictionId (teamName body) (Date_now env) (random_base36 env)
         \<and> resp_predictionId resp = i"
  using assms unfolding build_transaction_def Let_def
  by (auto split: option.splits if_splits)

lemma build_transaction_not_400: "build_transaction env body amount \<noteq> PrepareError 400 m"
  unfolding build_transaction_def Let_def by (auto split: option.splits)

lemma POST_Prepared:
  assumes "POST env body = Prepared resp"
  shows "0 \<le> stakePercentage body \<and> stakePercentage body \<le> 100 \<and>
         (\<exists>p. stakePercentage body = of_int p \<and> 0 < stakeAmount p \<and>
              build_transaction env body (stakeAmount p) = Prepared resp)"
proof -
  have oc: "outer_catch m \<noteq> Prepared resp" for m
    using outer_catch_error[of m] by auto
  show ?thesis
    using assms oc unfolding POST_def
    by (auto split: if_splits option.splits promise.splits simp: BigInt_Fulfilled)
qed

lemma POST_ignores_balance: "POST (env\<lparr>kale_balance_of := b\<rparr>) body = POST env body"
  by (simp add: POST_def build_transaction_def split: option.splits promise.splits)

lemma POST_checks_pass:
  assumes "publicKey body \<noteq> []" "teamName body \<noteq> []" "prediction body \<noteq> None"
    "fromPublicKey_ok env (publicKey body)"
    "env_DAO_CONTRACT_ID env \<noteq> []" "env_KALE_CONTRACT_ID env \<noteq> []"
    "loadAccount_error env (publicKey body) = None" "Contract_error env = None"
    "stakePercentage body = of_int p" "0 \<le> p" "p \<le> 100"
  shows "POST env body =
           (if stakeAmount p \<le> 0 then PrepareError 400 ''Insufficient KALE balance for staking''
            else build_transaction env body (stakeAmount p))"
  using assms by (auto simp: POST_def BigInt_of_int)

lemma POST_out_of_range:
  assumes "stakePercentage body < 0 \<or> 100 < stakePercentage body"
  shows "(\<exists>c m. POST env body = PrepareError c m) \<and>
         (publicKey body \<noteq> [] \<and> teamName body \<noteq> [] \<and> prediction body \<noteq> None \<and>
          fromPublicKey_ok env (publicKey body) \<longrightarrow>
          POST env body = PrepareError 400 ''Stake percentage must be between 0 and 100'')"
  using assms by (auto simp: POST_def)

lemma POST_zero:
  assumes "stakePercentage body = 0"
  shows "\<exists>c m. POST env body = PrepareError c m"
proof (cases "POST env body")
  case (PrepareError c m)
  then show ?thesis by blast
next
  case (Prepared resp)
  from POST_Prepared[OF this] assms obtain p where "(0::real) = of_int p" "0 < stakeAmount p"
    by auto
  then have False by (simp add: stakeAmount_exact)
  then show ?thesis ..
qed

lemma POST_example_50:
  "POST (prep_env ''0.i'') (request_with 50) =
     Prepared \<lparr>xdr = Call_make_prediction ''alpha_1700000000000_'' ''alpha'' ''EUR/USD'' True
                        500000000 50 ''GM'',
               resp_predictionId = ''alpha_1700000000000_'',
               operationType = ''make_prediction''\<rparr>"
  by (simp add: POST_def prep_env_def request_with_def BigInt_def stakeAmount_exact
      build_transaction_def make_predictionId_def Let_def digit_def)

lemma POST_example_25:
  "POST (prep_env ''0.9'') (request_with 25) =
     Prepared \<lparr>xdr = Call_make_prediction ''alpha_1700000000000_'' ''alpha'' ''EUR/USD'' True
                        250000000 25 ''GM'',
               resp_predictionId = ''alpha_1700000000000_'',
               operationType = ''make_prediction''\<rparr>"
  by (simp add: POST_def prep_env_def request_with_def BigInt_def stakeAmount_exact
      build_transaction_def make_predictionId_def Let_def digit_def)

lemma POST_example_0:
  "POST (prep_env ''0.i'') (request_with 0) =
     PrepareError 400 ''Insufficient KALE balance for staking''"
  by (simp add: POST_def prep_env_def request_with_def BigInt_def stakeAmount_exact)

text \<open>
  The staked amount of every prepared \<^verbatim>\<open>make_prediction\<close> is
  \<open>kaleBalance * p / 100\<close>, truncating toward zero, for the integer stake percentage
  \<open>p\<close> of the request (between 1 and 100); the response does not depend on the balance
  the user holds. Once the earlier checks have passed, the call fails with the
  insufficient-balance error exactly when the amount is not positive, which is when
  \<open>p\<close> is 0.
\<close>

lemma stakeAmount_of_request:
  "(POST env body = Prepared resp \<and> xdr resp = Call_make_prediction i t a d amount pct pk \<longrightarrow>
      (\<exists>p. stakePercentage body = of_int p \<and> 1 \<le> p \<and> p \<le> 100 \<and>
           amount = (kaleBalance * p) sdiv 100 \<and> amount = 10000000 * p \<and>
           0 < amount \<and> amount \<le> kaleBalance))
   \<and> POST (env\<lparr>kale_balance_of := b\<rparr>) body = POST env body
   \<and> (publicKey body \<noteq> [] \<and> teamName body \<noteq> [] \<and> prediction body \<noteq> None \<and>
       fromPublicKey_ok env (publicKey body) \<and>
       env_DAO_CONTRACT_ID env \<noteq> [] \<and> env_KALE_CONTRACT_ID env \<noteq> [] \<and>
       loadAccount_error env (publicKey body) = None \<and> Contract_error env = None \<and>
       stakePercentage body = of_int q \<and> 0 \<le> q \<and> q \<le> 100 \<longrightarrow>
         (POST env body = PrepareError 400 ''Insufficient KALE balance for staking'')
           = (stakeAmount q \<le> 0)
         \<and> (stakeAmount q \<le> 0) = (q = 0))
   \<and> stakeAmount 50 = 500000000"
proof -
  have a: "\<exists>p. stakePercentage body = of_int p \<and> 1 \<le> p \<and> p \<le> 100 \<and>
           amount = (kaleBalance * p) sdiv 100 \<and> amount = 10000000 * p \<and>
           0 < amount \<and> amount \<le> kaleBalance"
    if h: "POST env body = Prepared resp" "xdr resp = Call_make_prediction i t a d amount pct pk"
  proof -
    from POST_Prepared[OF h(1)] obtain p where p: "stakePercentage body \<le> 100"
      "stakePercentage body = of_int p" "0 < stakeAmount p"
      "build_transaction env body (stakeAmount p) = Prepared resp" by blast
    have am: "amount = stakeAmount p" using build_transaction_amount[OF p(4) h(2)] by simp
    have "p \<le> 100" using p(1,2) by simp
    moreover have "1 \<le> p" using p(3) by (simp add: stakeAmount_exact)
    ultimately show ?thesis
      using p(2) am stakeAmount_exact[of p] by (auto simp: stakeAmount_def kaleBalance_def)
  qed
  have c: "(POST env body = PrepareError 400 ''Insufficient KALE balance for staking'')
           = (stakeAmount q \<le> 0) \<and> (stakeAmount q \<le> 0) = (q = 0)"
    if "publicKey body \<noteq> []" "teamName body \<noteq> []" "prediction body \<noteq> None"
       "fromPublicKey_ok env (publicKey body)"
       "env_DAO_CONTRACT_ID env \<noteq> []" "env_KALE_CONTRACT_ID env \<noteq> []"
       "loadAccount_error env (publicKey body) = None" "Contract_error env = None"
       "stakePercentage body = of_int q" "0 \<le> q" "q \<le> 100"
    using POST_checks_pass[OF that] that(10) build_transaction_not_400
    by (auto simp: stakeAmount_exact)
  show ?thesis
    using a c POST_ignores_balance[of b env body] stakeAmount_exact[of 50] by simp
qed

section \<open>Properties of the team registry and of the routes over it\<close>

lemma form_team_Inr:
  "(form_team n ms s = Inr s') =
     (Teams s n = None \<and> (\<forall>m \<in> set ms. UserTeams s m = None) \<and>
      s' = s\<lparr>Teams := (Teams s)(n \<mapsto> \<lparr>name = n, members = ms, total_stake = 0\<rparr>),
             UserTeams := (\<lambda>a. if a \<in> set ms then Some n else UserTeams s a)\<rparr>)"
  by (auto simp: form_team_def list_ex_iff)

lemma form_team_taken: "Teams s n \<noteq> None \<Longrightarrow> form_team n ms s = Inl TeamAlreadyExists"
  by (simp add: form_team_def)

lemma form_team_member_mapped:
  "Teams s n = None \<Longrightarrow> \<exists>m \<in> set ms. UserTeams s m \<noteq> None \<Longrightarrow> form_team n ms s = Inl AlreadyInTeam"
  by (simp add: form_team_def list_ex_iff)

lemma form_team_fails:
  "Teams s n \<noteq> None \<or> (\<exists>m \<in> set ms. UserTeams s m \<noteq> None) \<Longrightarrow> \<exists>e. form_team n ms s = Inl e"
  by (auto simp: form_team_def list_ex_iff)

lemma invoke_failure: "fst (invoke f s) = Inl e \<Longrightarrow> snd (invoke f s) = s"
  by (simp add: invoke_def split: sum.splits)

lemma index_consistent_empty: "index_consistent empty_store"
  by (simp add: index_consistent_def empty_store_def)

lemma index_consistent_form_team:
  assumes c: "index_consistent s" and f: "form_team n ms s = Inr s'"
  shows "index_consistent s'"
proof -
  from f have free: "Teams s n = None" and unmapped: "\<forall>m \<in> set ms. UserTeams s m = None"
    and s': "s' = s\<lparr>Teams := (Teams s)(n \<mapsto> \<lparr>name = n, members = ms, total_stake = 0\<rparr>),
                    UserTeams := (\<lambda>a. if a \<in> set ms then Some n else UserTeams s a)\<rparr>"
    by (simp_all add: form_team_Inr)
  have old: "(UserTeams s a = Some t) = (\<exists>T. Teams s t = Some T \<and> a \<in> set (members T))" for a t
    using c by (simp add: index_consistent_def)
  show ?thesis
    unfolding index_consistent_def
  proof (intro allI)
    fix a t
    show "(UserTeams s' a = Some t) = (\<exists>T. Teams s' t = Some T \<and> a \<in> set (members T))"
    proof (cases "t = n")
      case True
      have "UserTeams s a \<noteq> Some n" using old[of a n] free by simp
      then show ?thesis using True s' by auto
    next
      case False
      have "a \<in> set ms \<Longrightarrow> \<not> (\<exists>T. Teams s t = Some T \<and> a \<in> set (members T))"
        using unmapped old[of a t] by auto
      then show ?thesis using False s' old[of a t] by auto
    qed
  qed
qed

lemma index_consistent_invoke:
  "index_consistent s \<Longrightarrow> index_consistent (snd (invoke (form_team n ms) s))"
  using index_consistent_form_team[of s n ms]
  by (auto simp: invoke_def split: sum.splits)

lemma index_consistent_run_calls:
  "index_consistent s \<Longrightarrow> index_consistent (run_calls cs s)"
  by (induction cs s rule: run_calls.induct) (simp_all add: index_consistent_invoke)

lemma index_consistent_one_team:
  assumes "index_consistent s"
  shows "one_team_per_address s"
  unfolding one_team_per_address_def
proof (intro allI impI)
  fix a t1 t2 T1 T2
  assume h: "Teams s t1 = Some T1 \<and> a \<in> set (members T1) \<and>
             Teams s t2 = Some T2 \<and> a \<in> set (members T2)"
  have "UserTeams s a = Some t1" "UserTeams s a = Some t2"
    using assms h unfolding index_consistent_def by blast+
  then show "t1 = t2" by simp
qed

lemma store_alpha_eq:
  "store_alpha =
     \<lparr>Teams = [''alpha'' \<mapsto> \<lparr>name = ''alpha'', members = [''GM''], total_stake = 0\<rparr>],
      UserTeams = (\<lambda>a. if a \<in> set [''GM''] then Some ''alpha'' else None)\<rparr>"
  by (simp add: store_alpha_def invoke_def form_team_def empty_store_def cong: if_cong)

lemma getUserTeam_frame: "snd (getUserTeam env address s) = s"
  by (simp add: getUserTeam_def split: option.splits sim_user_team.splits)

lemma getUserTeam_no_membership:
  assumes "a \<noteq> []" "ut_fromPublicKey_ok env a" "ut_DAO_CONTRACT_ID env \<noteq> []"
    "get_user_team a s = None" "\<forall>cv. ut_rpc_fault env \<noteq> Some (UtRetval cv)"
  shows "\<exists>m. fst (getUserTeam env (Some a) s) = UserTeam None m"
  using assms
  by (auto simp: getUserTeam_def simulate_get_user_team_def sdk_user_team_def
           split: option.splits sim_user_team.splits)

lemma getUserTeam_membership:
  assumes "a \<noteq> []" "ut_fromPublicKey_ok env a" "ut_DAO_CONTRACT_ID env \<noteq> []"
    "\<not> ut_Contract_throws env" "ut_rpc_fault env = None"
    "get_user_team a s = Some t" "t \<noteq> []"
  shows "fst (getUserTeam env (Some a) s) = UserTeam (Some t) ''Team membership found''"
  using assms
  by (simp add: getUserTeam_def simulate_get_user_team_def sdk_user_team_def
        actualTeamName_def truthy_def)

lemma getUserTeam_answer:
  assumes "a \<noteq> []" "ut_fromPublicKey_ok env a" "ut_DAO_CONTRACT_ID env \<noteq> []"
    "\<not> ut_Contract_throws env" "simulate_get_user_team env a s = UtRetval cv"
  shows "fst (getUserTeam env (Some a) s) =
           (if switch_name cv = ''scvVoid'' then UserTeam None ''User is not a member of any team''
            else case actualTeamName cv of
                   None \<Rightarrow> UserTeam (Some ''unknown-team'') ''Team membership found''
                 | Some n \<Rightarrow>
                     UserTeam (Some (if n = [] then ''unknown-team'' else n))
                       ''Team membership found'')"
  using assms by (simp add: getUserTeam_def split: option.splits)

lemma create_team_frame: "snd (create_team env pk tn s) = s"
  by (simp add: create_team_def split: option.splits)

lemma check_user_and_prepare_rejects:
  assumes "Teams s n \<noteq> None \<or> UserTeams s pk \<noteq> None"
  shows "\<exists>c e. check_user_and_prepare env pk n s = TeamRouteError c e"
proof -
  have "\<exists>e. form_team n [pk] s = Inl e"
    using assms by (intro form_team_fails) auto
  then show ?thesis
    by (auto simp: check_user_and_prepare_def prepare_form_team_def split: option.splits)
qed

lemma create_team_rejects:
  assumes "Teams s (te_trim env tn) \<noteq> None \<or> UserTeams s pk \<noteq> None"
  shows "\<exists>c e. create_team env pk tn s = (TeamRouteError c e, s)"
  using check_user_and_prepare_rejects[OF assms, of env]
  by (auto simp: create_team_def split: option.splits)

lemma create_team_reads_work:
  assumes "pk \<noteq> []" "tn \<noteq> []" "2 \<le> te_length env (te_trim env tn)" "te_length env (te_trim env tn) \<le> 32"
    "te_fromPublicKey_ok env pk" "te_DAO_CONTRACT_ID env \<noteq> []"
    "te_loadAccount_error env pk = None" "te_Contract_error env = None"
    "te_get_team_fault env = None" "te_get_user_team_fault env = None"
  shows "create_team env pk tn s =
           (if Teams s (te_trim env tn) \<noteq> None then TeamRouteError 400 (TeamExists (te_trim env tn))
            else if UserTeams s pk \<noteq> None then TeamRouteError 400 AlreadyMember
            else case te_prepare_fault env of
                   Some m \<Rightarrow> TeamRouteError 500 (RouteFailed m)
                 | None \<Rightarrow> TeamPrepared (Call_form_team (te_trim env tn) [pk]) (te_trim env tn), s)"
  using assms
  by (auto simp: create_team_def read_team_def read_user_team_def get_team_def get_user_team_def
        check_user_and_prepare_def prepare_form_team_def form_team_def
        split: option.splits)

text \<open>
  The join route hands an existing team to \<^verbatim>\<open>form_team\<close>, which rejects a name that
  is taken: it prepares no transaction for a team that exists.
\<close>

lemma join_team_existing_team:
  assumes "Teams s (te_trim env tn) \<noteq> None"
  shows "\<exists>c e. join_team env pk tn s = (TeamRouteError c e, s)"
  using check_user_and_prepare_rejects[of s "te_trim env tn" pk env] assms
  by (auto simp: join_team_def split: option.splits)

section \<open>The claims\<close>

text \<open>
  C1. The outcome the handler returns is not the equality of the prediction's direction
  with the direction of the price between a reference and the current price. The
  prediction \<^verbatim>\<open>p1\<close> predicts a rise.

  With the oracle at 1.0850 and the contract's answer an object without a
  \<^verbatim>\<open>_value\<close> array, the handler keeps its initial direction \<^verbatim>\<open>false\<close> and
  returns outcome false, although the price it compares with (1.079575) is below the
  current price. With the oracle at 1.0750, below the reference 1.0800 of Scenario C, it
  returns outcome true: the price it compares with is 0.995 times the current price
  (1.069625), never a reference price of the oracle. When the contract read throws it
  compares its own guess of the direction (false) with prices drawn at random (1.05
  against 1.0) and returns outcome false.
\<close>

theorem resolution_outcome_not_by_formula:
  "fst (GET env_up (Some ''p1'') ledger_p1_sdk) = Resolution resolution_p1_sdk
   \<and> outcome resolution_p1_sdk = False
   \<and> actualPriceWentUp (currentPrice resolution_p1_sdk) (historicalPrice resolution_p1_sdk)
   \<and> fst (GET (env_up\<lparr>lastprice_sim := oracle_1_0750\<rparr>) (Some ''p1'') ledger_p1) =
       Resolution \<lparr>predictionId = ''p1'', outcome = True, currentPrice = dbl 1.075,
                   historicalPrice = dbl (dbl 1.075 * dbl 0.995), rewardsDistributed = True,
                   resolvedViaContract = True,
                   contractData = Some \<lparr>cd_asset = ''EUR/USD'', cd_predictedDirection = JBool True,
                                         cd_resolved = False\<rparr>,
                   contractError = None\<rparr>
   \<and> dbl 1.075 < 1.08
   \<and> fst (GET (env_up\<lparr>random1 := 3 / 4\<rparr>) (Some ''p1'') ledger_unreachable) =
       Resolution \<lparr>predictionId = ''p1'', outcome = False, currentPrice = dbl 1.05,
                   historicalPrice = 1, rewardsDistributed = True, resolvedViaContract = False,
                   contractData = None, contractError = Some ''fetch failed''\<rparr>
   \<and> actualPriceWentUp (dbl 1.05) 1"
proof -
  have a: "dbl 1.075 < 1.08" unfolding dbl_1075 by simp
  have b: "actualPriceWentUp (dbl 1.05) 1" unfolding dbl_105 actualPriceWentUp_def by simp
  have c: "actualPriceWentUp (currentPrice resolution_p1_sdk) (historicalPrice resolution_p1_sdk)"
    using rise_1085 by (simp add: resolution_p1_sdk_def actualPriceWentUp_def)
  have d: "outcome resolution_p1_sdk = False" by (simp add: resolution_p1_sdk_def)
  show ?thesis
    using a b c d GET_env_up_p1_sdk GET_1_0750_p1 GET_fallback_rise by simp
qed

text \<open>
  C2, as stated, fails: when the oracle call throws, and when the oracle answers the
  invalid price 0, \<^verbatim>\<open>getLastPrice\<close> returns the synthetic price 1.08 with the
  current time, not an error.
\<close>

theorem getLastPrice_counterexample:
  "getLastPrice oracle_down ''EUR/USD'' 1700000000000 (1 / 2) =
     Fulfilled \<lparr>price = dbl 1.08, timestamp = 1700000000000\<rparr>
   \<and> getLastPrice oracle_zero ''EUR/USD'' 1700000000000 (1 / 2) =
     Fulfilled \<lparr>price = dbl 1.08, timestamp = 1700000000000\<rparr>"
proof -
  have m: "mock_data ''EUR/USD'' 1700000000000 (1 / 2) =
             \<lparr>price = dbl 1.08, timestamp = 1700000000000\<rparr>"
    using dbl_dbl_108 by (simp add: mock_data_def generateMockPrice_def basePrice_def dbl_0 dbl_1)
  have z: "fst (read_price (ScvI128 (Some 0)) 1700000000000) \<le> 0"
    by (rule read_price_nonpos) simp
  have "getLastPrice oracle_down ''EUR/USD'' 1700000000000 (1 / 2) =
          Fulfilled (mock_data ''EUR/USD'' 1700000000000 (1 / 2))"
    by (rule getLastPrice_failed_fetch) (simp add: oracle_down_def)
  moreover have "getLastPrice oracle_zero ''EUR/USD'' 1700000000000 (1 / 2) =
          Fulfilled (mock_data ''EUR/USD'' 1700000000000 (1 / 2))"
    using z by (intro getLastPrice_failed_fetch) (simp add: oracle_zero_def)
  ultimately show ?thesis using m by simp
qed

text \<open>
  C2, amended. For every asset symbol \<^verbatim>\<open>getLastPrice\<close> never rejects, and what it
  returns is determined by the oracle's answer. It returns the price and the time stamp
  it reads from the oracle's return value exactly when that value is an object, the
  price read is positive and the time stamp read is a valid time: the price is the
  \<^verbatim>\<open>scvI128\<close> value divided by 1e14, of the value itself (then with the current
  time) or of the \<^verbatim>\<open>price\<close> entry of a map (then with 1000 times the map's
  \<^verbatim>\<open>timestamp\<close> entry). In every other case (the oracle call throws, returns no
  value, returns a price that is not positive) it returns mock data: the symbol's base
  price varied by about one percent (less than 1.1 percent, the rounding of the doubles
  included), stamped with the current time. So every price it returns is positive.
\<close>

theorem getLastPrice_falls_back_to_mock:
  "getLastPrice orc s now r =
     Fulfilled
       (case orc (assetParam s) of
          SimThrows e \<Rightarrow> mock_data s now r
        | SimNoRetval \<Rightarrow> mock_data s now r
        | SimRetval cv \<Rightarrow>
            if is_object cv \<and> 0 < fst (read_price cv now) \<and> valid_date (snd (read_price cv now))
            then \<lparr>price = fst (read_price cv now), timestamp = snd (read_price cv now)\<rparr>
            else mock_data s now r)
   \<and> read_price (ScvI128 (Some x)) now = (dbl (x / 100000000000000), now)
   \<and> read_price (ScvMap [(Some ''price'', Some (ScvI128 (Some x))),
                          (Some ''timestamp'', Some (ScvU64 (Some t)))]) now
       = (dbl (x / 100000000000000), dbl (t * 1000))
   \<and> (x \<le> 0 \<longrightarrow> fst (read_price (ScvI128 (Some x)) now) \<le> 0)
   \<and> (((\<exists>e. orc (assetParam s) = SimThrows e) \<or> orc (assetParam s) = SimNoRetval \<or>
        (\<exists>cv. orc (assetParam s) = SimRetval cv \<and> fst (read_price cv now) \<le> 0))
       \<longrightarrow> getLastPrice orc s now r = Fulfilled (mock_data s now r))
   \<and> timestamp (mock_data s now r) = now
   \<and> (0 \<le> r \<and> r < 1 \<longrightarrow>
         basePrice s * 0.989 \<le> price (mock_data s now r) \<and>
         price (mock_data s now r) \<le> basePrice s * 1.011 \<and>
         (\<forall>d. getLastPrice orc s now r = Fulfilled d \<longrightarrow> 0 < price d))"
proof -
  have a: "getLastPrice orc s now r = Fulfilled (mock_data s now r)"
    if "(\<exists>e. orc (assetParam s) = SimThrows e) \<or> orc (assetParam s) = SimNoRetval \<or>
        (\<exists>cv. orc (assetParam s) = SimRetval cv \<and> fst (read_price cv now) \<le> 0)"
    using that by (rule getLastPrice_failed_fetch)
  have b: "basePrice s * 0.989 \<le> price (mock_data s now r) \<and>
         price (mock_data s now r) \<le> basePrice s * 1.011 \<and>
         (\<forall>d. getLastPrice orc s now r = Fulfilled d \<longrightarrow> 0 < price d)"
    if "0 \<le> r \<and> r < 1"
    using that generateMockPrice_bounds[of r s] getLastPrice_pos[of r orc s now]
    by (simp add: mock_data_def)
  have c: "timestamp (mock_data s now r) = now" by (simp add: mock_data_def)
  show ?thesis
    using a b c getLastPrice_eq[of orc s now r] read_price_I128[of x now]
      read_price_map[of x t now] read_price_nonpos[of x now]
    by blast
qed

text \<open>
  The oracle is down and \<^verbatim>\<open>Math.random()\<close> gives 0.5: mock data. The oracle answers
  1.0850: that price, with the current time.
\<close>

theorem getLastPrice_falls_back_to_mock_witness:
  "oracle_down (assetParam ''EUR/USD'') = SimThrows ''request failed''
   \<and> (0::real) \<le> 1 / 2 \<and> (1 / 2 :: real) < 1
   \<and> getLastPrice oracle_down ''EUR/USD'' 1700000000000 (1 / 2) =
        Fulfilled (mock_data ''EUR/USD'' 1700000000000 (1 / 2))
   \<and> 0 < price (mock_data ''EUR/USD'' 1700000000000 (1 / 2))
   \<and> getLastPrice oracle_1_0850 ''EUR/USD'' 1700000000000 (1 / 2) =
        Fulfilled \<lparr>price = dbl 1.085, timestamp = 1700000000000\<rparr>"
proof -
  note t = getLastPrice_falls_back_to_mock[of oracle_down "''EUR/USD''" 1700000000000 "1 / 2"]
  note u = getLastPrice_falls_back_to_mock[of oracle_1_0850 "''EUR/USD''" 1700000000000 "1 / 2"
      108500000000000]
  have f: "oracle_down (assetParam ''EUR/USD'') = SimThrows ''request failed''"
    by (simp add: oracle_down_def)
  have r: "(0::real) \<le> 1 / 2" "(1 / 2 :: real) < 1" by simp_all
  have g: "getLastPrice oracle_down ''EUR/USD'' 1700000000000 (1 / 2) =
             Fulfilled (mock_data ''EUR/USD'' 1700000000000 (1 / 2))"
    using t f by blast
  have p: "0 < price (mock_data ''EUR/USD'' 1700000000000 (1 / 2))"
    using t g r by blast
  have rp: "read_price (ScvI128 (Some 108500000000000)) 1700000000000 =
              (dbl 1.085, 1700000000000)"
    using u[THEN conjunct2, THEN conjunct1] by simp
  have pos: "0 < dbl 1.085" unfolding dbl_1085 by simp
  have o: "oracle_1_0850 (assetParam ''EUR/USD'') = SimRetval (ScvI128 (Some 108500000000000))"
    by (simp add: oracle_1_0850_def)
  have h: "getLastPrice oracle_1_0850 ''EUR/USD'' 1700000000000 (1 / 2) =
        Fulfilled \<lparr>price = dbl 1.085, timestamp = 1700000000000\<rparr>"
    unfolding u[THEN conjunct1] o using pos
    by (simp add: rp is_object_def valid_date_def)
  show ?thesis using f r g p h by blast
qed

text \<open>
  C3. The handler is not exactly-once. A second call for \<^verbatim>\<open>p1\<close>, on the ledger the
  first call left, returns the resolution again and no \<open>AlreadyResolved\<close> error; so
  does a call for a prediction that the ledger reports as resolved already. This is so
  when the contract's answer carries the entries in a \<^verbatim>\<open>_value\<close> array (outcome
  true both times) and when it does not (outcome false both times).
\<close>

theorem second_resolution_succeeds:
  "fst (GET env_up (Some ''p1'') (snd (GET env_up (Some ''p1'') ledger_p1))) = Resolution resolution_p1
   \<and> outcome resolution_p1
   \<and> fst (GET env_up (Some ''p1'') ledger_p1_resolved) = Resolution resolution_p1
   \<and> fst (GET env_up (Some ''p1'') ledger_p1_sdk) = Resolution resolution_p1_sdk
   \<and> fst (GET env_up (Some ''p1'') (snd (GET env_up (Some ''p1'') ledger_p1_sdk))) =
       Resolution resolution_p1_sdk"
  by (simp add: GET_env_up_p1 GET_env_up_p1_resolved GET_env_up_p1_sdk resolution_p1_def)




text \<open>
  C4. The staked amount is not computed from the user's balance. The member \<^verbatim>\<open>GM\<close>
  holds 1,000,000 units and stakes 50 percent; the prepared transaction commits
  500,000,000 units (50 percent of the constant 1,000,000,000 of line 111), not 500,000,
  and the amount is above the balance held without the call failing.
\<close>

theorem stake_amount_ignores_actual_balance:
  "kale_balance_of (prep_env ''0.i'') ''GM'' = 1000000
   \<and> POST (prep_env ''0.i'') (request_with 50) =
       Prepared \<lparr>xdr = Call_make_prediction ''alpha_1700000000000_'' ''alpha'' ''EUR/USD'' True
                          500000000 50 ''GM'',
                 resp_predictionId = ''alpha_1700000000000_'',
                 operationType = ''make_prediction''\<rparr>"
  by (simp add: POST_example_50) (simp add: prep_env_def)

text \<open>
  C5, as stated, fails at exactly 0: the request is rejected by the amount check, with
  the insufficient-balance error, not with the percentage error.
\<close>

theorem zero_percent_counterexample:
  "stakePercentage (request_with 0) = 0
   \<and> POST (prep_env ''0.i'') (request_with 0) =
       PrepareError 400 ''Insufficient KALE balance for staking''"
  by (simp add: POST_example_0) (simp add: request_with_def)

text \<open>
  C5, amended. A stake percentage below 0 or above 100 is always rejected, and with the
  percentage error (status 400, "Stake percentage must be between 0 and 100") once the
  required fields and the public key have passed. Exactly 0 passes the percentage check
  and is always rejected too: with the insufficient-balance error once the earlier
  checks have passed. A prepared \<^verbatim>\<open>make_prediction\<close> carries the percentage of the
  request, unchanged, and it lies in (0, 100]: nothing is clamped. The handler returns a
  response and writes no state.
\<close>

theorem stake_percentage_rejected_outside_range:
  "(stakePercentage body < 0 \<or> 100 < stakePercentage body \<longrightarrow>
      (\<exists>c m. POST env body = PrepareError c m) \<and>
      (publicKey body \<noteq> [] \<and> teamName body \<noteq> [] \<and> prediction body \<noteq> None \<and>
       fromPublicKey_ok env (publicKey body) \<longrightarrow>
       POST env body = PrepareError 400 ''Stake percentage must be between 0 and 100''))
   \<and> (stakePercentage body = 0 \<longrightarrow>
      (\<exists>c m. POST env body = PrepareError c m) \<and>
      (publicKey body \<noteq> [] \<and> teamName body \<noteq> [] \<and> prediction body \<noteq> None \<and>
       fromPublicKey_ok env (publicKey body) \<and>
       env_DAO_CONTRACT_ID env \<noteq> [] \<and> env_KALE_CONTRACT_ID env \<noteq> [] \<and>
       loadAccount_error env (publicKey body) = None \<and> Contract_error env = None \<longrightarrow>
       POST env body = PrepareError 400 ''Insufficient KALE balance for staking''))
   \<and> (POST env body = Prepared resp \<and> xdr resp = Call_make_prediction i t a d amount pct pk \<longrightarrow>
      pct = stakePercentage body \<and> 0 < pct \<and> pct \<le> 100)"
proof -
  have z: "POST env body = PrepareError 400 ''Insufficient KALE balance for staking''"
    if "stakePercentage body = 0" "publicKey body \<noteq> []" "teamName body \<noteq> []"
       "prediction body \<noteq> None" "fromPublicKey_ok env (publicKey body)"
       "env_DAO_CONTRACT_ID env \<noteq> []" "env_KALE_CONTRACT_ID env \<noteq> []"
       "loadAccount_error env (publicKey body) = None" "Contract_error env = None"
    using POST_checks_pass[of body env 0] that by (simp add: stakeAmount_exact)
  have p: "pct = stakePercentage body \<and> 0 < pct \<and> pct \<le> 100"
    if h: "POST env body = Prepared resp" "xdr resp = Call_make_prediction i t a d amount pct pk"
  proof -
    from POST_Prepared[OF h(1)] obtain q where q: "stakePercentage body \<le> 100"
      "stakePercentage body = of_int q" "0 < stakeAmount q"
      "build_transaction env body (stakeAmount q) = Prepared resp" by blast
    have "pct = stakePercentage body" using build_transaction_amount[OF q(4) h(2)] by simp
    moreover have "0 < q" using q(3) by (simp add: stakeAmount_exact)
    ultimately show ?thesis using q(1,2) by simp
  qed
  show ?thesis
    using POST_out_of_range[of body env] POST_zero[of body env] z p by blast
qed

text \<open>A request with 150 percent.\<close>

theorem stake_percentage_rejected_outside_range_witness:
  "100 < stakePercentage (request_with 150)
   \<and> publicKey (request_with 150) \<noteq> [] \<and> teamName (request_with 150) \<noteq> []
   \<and> prediction (request_with 150) \<noteq> None
   \<and> fromPublicKey_ok (prep_env ''0.i'') (publicKey (request_with 150))
   \<and> POST (prep_env ''0.i'') (request_with 150) =
       PrepareError 400 ''Stake percentage must be between 0 and 100''"
proof -
  note t = stake_percentage_rejected_outside_range[of "request_with 150" "prep_env ''0.i''"]
  have h: "100 < stakePercentage (request_with 150)"
    "publicKey (request_with 150) \<noteq> []" "teamName (request_with 150) \<noteq> []"
    "prediction (request_with 150) \<noteq> None"
    "fromPublicKey_ok (prep_env ''0.i'') (publicKey (request_with 150))"
    by (simp_all add: request_with_def prep_env_def)
  have "POST (prep_env ''0.i'') (request_with 150) =
       PrepareError 400 ''Stake percentage must be between 0 and 100''"
    using t h by blast
  with h show ?thesis by blast
qed

text \<open>
  C8. Two requests for team alpha in the same millisecond, one with
  \<^verbatim>\<open>Math.random()\<close> = 0.5 (in base 36, \<^verbatim>\<open>0.i\<close>) and 50 percent, the other with 0.25
  (\<^verbatim>\<open>0.9\<close>) and 25 percent: both derive the id \<^verbatim>\<open>alpha_1700000000000_\<close>, since
  \<^verbatim>\<open>substring(7)\<close> of a text of three characters is empty.
\<close>

theorem prediction_id_collision:
  "POST (prep_env ''0.i'') (request_with 50) =
     Prepared \<lparr>xdr = Call_make_prediction ''alpha_1700000000000_'' ''alpha'' ''EUR/USD'' True
                        500000000 50 ''GM'',
               resp_predictionId = ''alpha_1700000000000_'',
               operationType = ''make_prediction''\<rparr>
   \<and> POST (prep_env ''0.9'') (request_with 25) =
     Prepared \<lparr>xdr = Call_make_prediction ''alpha_1700000000000_'' ''alpha'' ''EUR/USD'' True
                        250000000 25 ''GM'',
               resp_predictionId = ''alpha_1700000000000_'',
               operationType = ''make_prediction''\<rparr>
   \<and> make_predictionId ''alpha'' 1700000000000 ''0.i'' = make_predictionId ''alpha'' 1700000000000 ''0.9''"
  by (simp add: POST_example_50 POST_example_25) (simp add: make_predictionId_def)

text \<open>
  C6. \<^verbatim>\<open>form_team(name, members)\<close> fails with \<open>TeamAlreadyExists\<close> whenever the
  name is taken, and with \<open>AlreadyInTeam\<close> whenever the name is free and a listed
  member already has a membership mapping; a failed call leaves the store as it was, so
  it creates nothing. The creation route in front of it never prepares a transaction
  for a name that is taken or for a caller who is mapped to a team, and writes nothing.
\<close>

theorem form_team_failures_create_nothing:
  "(Teams s n \<noteq> None \<longrightarrow> invoke (form_team n ms) s = (Inl TeamAlreadyExists, s))
   \<and> (Teams s n = None \<and> (\<exists>m \<in> set ms. UserTeams s m \<noteq> None) \<longrightarrow>
        invoke (form_team n ms) s = (Inl AlreadyInTeam, s))
   \<and> (\<forall>e. fst (invoke (form_team n ms) s) = Inl e \<longrightarrow> snd (invoke (form_team n ms) s) = s)
   \<and> (Teams s (te_trim env tn) \<noteq> None \<or> UserTeams s pk \<noteq> None \<longrightarrow>
        (\<exists>c e. create_team env pk tn s = (TeamRouteError c e, s)))
   \<and> snd (create_team env pk tn s) = s"
proof -
  have a: "invoke (form_team n ms) s = (Inl TeamAlreadyExists, s)" if "Teams s n \<noteq> None"
    using form_team_taken[OF that, of ms] by (simp add: invoke_def)
  have b: "invoke (form_team n ms) s = (Inl AlreadyInTeam, s)"
    if "Teams s n = None" "\<exists>m \<in> set ms. UserTeams s m \<noteq> None"
    using form_team_member_mapped[OF that] by (simp add: invoke_def)
  have c: "snd (invoke (form_team n ms) s) = s" if "fst (invoke (form_team n ms) s) = Inl e" for e
    using that by (rule invoke_failure)
  have d: "\<exists>c e. create_team env pk tn s = (TeamRouteError c e, s)"
    if "Teams s (te_trim env tn) \<noteq> None \<or> UserTeams s pk \<noteq> None"
    using that by (rule create_team_rejects)
  show ?thesis using a b c d create_team_frame[of env pk tn s] by blast
qed

text \<open>
  Scenario E: \<^verbatim>\<open>GM\<close> is mapped to team alpha; \<^verbatim>\<open>form_team("beta", [GM])\<close> fails with
  \<open>AlreadyInTeam\<close> and team beta is not created.
\<close>

theorem form_team_failures_create_nothing_witness:
  "UserTeams store_alpha ''GM'' = Some ''alpha''
   \<and> Teams store_alpha ''beta'' = None
   \<and> invoke (form_team ''beta'' [''GM'']) store_alpha = (Inl AlreadyInTeam, store_alpha)
   \<and> Teams (snd (invoke (form_team ''beta'' [''GM'']) store_alpha)) ''beta'' = None"
proof -
  note t = form_team_failures_create_nothing[of store_alpha "''beta''" "[''GM'']"]
  have u: "UserTeams store_alpha ''GM'' = Some ''alpha''"
    and f: "Teams store_alpha ''beta'' = None"
    by (simp_all add: store_alpha_eq)
  have m: "\<exists>m \<in> set [''GM'']. UserTeams store_alpha m \<noteq> None" using u by simp
  have i: "invoke (form_team ''beta'' [''GM'']) store_alpha = (Inl AlreadyInTeam, store_alpha)"
    using t f m by blast
  show ?thesis using u f i by simp
qed

text \<open>
  C7. After every sequence of \<^verbatim>\<open>form_team\<close> calls, successful or failed, from the
  empty store (or from any store in which the index agrees with the teams), the
  membership index agrees with the teams' member lists, and no address is listed by two
  teams. (The index is a map: it holds at most one team name for an address.)
\<close>

theorem one_team_per_address_invariant:
  "(index_consistent s \<longrightarrow>
      index_consistent (run_calls cs s) \<and> one_team_per_address (run_calls cs s))
   \<and> index_consistent (run_calls cs empty_store)
   \<and> one_team_per_address (run_calls cs empty_store)
   \<and> (\<forall>a t1 t2. UserTeams (run_calls cs empty_store) a = Some t1 \<and>
                  UserTeams (run_calls cs empty_store) a = Some t2 \<longrightarrow> t1 = t2)"
  using index_consistent_run_calls[of s cs] index_consistent_run_calls[OF index_consistent_empty, of cs]
    index_consistent_one_team
  by auto

text \<open>Four calls, the second and the third of which fail.\<close>

theorem one_team_per_address_invariant_witness:
  "index_consistent empty_store
   \<and> index_consistent
       (run_calls [(''alpha'', [''GM'']), (''beta'', [''GM'', ''GN'']), (''alpha'', [''GN'']),
                   (''beta'', [''GN''])] empty_store)
   \<and> one_team_per_address
       (run_calls [(''alpha'', [''GM'']), (''beta'', [''GM'', ''GN'']), (''alpha'', [''GN'']),
                   (''beta'', [''GN''])] empty_store)
   \<and> UserTeams
       (run_calls [(''alpha'', [''GM'']), (''beta'', [''GM'', ''GN'']), (''alpha'', [''GN'']),
                   (''beta'', [''GN''])] empty_store) ''GM'' = Some ''alpha''
   \<and> UserTeams
       (run_calls [(''alpha'', [''GM'']), (''beta'', [''GM'', ''GN'']), (''alpha'', [''GN'']),
                   (''beta'', [''GN''])] empty_store) ''GN'' = Some ''beta''"
proof -
  let ?cs = "[(''alpha'', [''GM'']), (''beta'', [''GM'', ''GN'']), (''alpha'', [''GN'']),
              (''beta'', [''GN''])]"
  note t = one_team_per_address_invariant[of empty_store ?cs]
  have e: "index_consistent empty_store" by (rule index_consistent_empty)
  have c: "index_consistent (run_calls ?cs empty_store)"
    and o: "one_team_per_address (run_calls ?cs empty_store)"
    using t e by blast+
  have u: "UserTeams (run_calls ?cs empty_store) ''GM'' = Some ''alpha''"
    "UserTeams (run_calls ?cs empty_store) ''GN'' = Some ''beta''"
    by (simp_all add: invoke_def form_team_def empty_store_def)
  show ?thesis using e c o u by blast
qed

text \<open>
  C9, as stated, fails for a member when the read fails: \<^verbatim>\<open>GM\<close> is a member of
  team alpha, and when the RPC call throws, or when the contract object cannot be built,
  the route answers with success and \<^verbatim>\<open>teamName: null\<close>.
\<close>

theorem get_user_team_fault_counterexample:
  "get_user_team ''GM'' store_alpha = Some ''alpha''
   \<and> getUserTeam (ut_env_ok\<lparr>ut_rpc_fault := Some UtThrows\<rparr>) (Some ''GM'') store_alpha =
       (UserTeam None ''Unable to determine team membership'', store_alpha)
   \<and> getUserTeam (ut_env_ok\<lparr>ut_Contract_throws := True\<rparr>) (Some ''GM'') store_alpha =
       (UserTeam None ''User is not a member of any team'', store_alpha)"
  by (simp add: getUserTeam_def ut_env_ok_def simulate_get_user_team_def get_user_team_def
      store_alpha_eq)

text \<open>
  C9, amended. \<^verbatim>\<open>getUserTeam\<close> changes no stored state on any call. For a
  well-formed address (and a configured contract id): when the read fails (the contract
  object cannot be built, the RPC call throws, or its response has no usable return
  value) it answers with success and \<^verbatim>\<open>teamName: null\<close>, for a member as for
  anybody else; when the read returns the contract's answer it answers
  \<^verbatim>\<open>teamName: null\<close> for an address without a membership and the team's name for an
  address with one (\<^verbatim>\<open>unknown-team\<close> if that name is empty). So an address
  without a membership never gets an error, and a member gets the team's name exactly
  when the read succeeds. In general a \<^verbatim>\<open>scvVoid\<close> return value becomes
  \<^verbatim>\<open>teamName: null\<close> and a string value its text.
\<close>

theorem get_user_team_read_only:
  "snd (getUserTeam env address s) = s
   \<and> (a \<noteq> [] \<and> ut_fromPublicKey_ok env a \<and> ut_DAO_CONTRACT_ID env \<noteq> [] \<and>
       (ut_Contract_throws env \<or> ut_rpc_fault env = Some UtThrows \<or>
        ut_rpc_fault env = Some UtNoRetval \<or> ut_rpc_fault env = Some UtMalformed) \<longrightarrow>
         (\<exists>m. getUserTeam env (Some a) s = (UserTeam None m, s)))
   \<and> (a \<noteq> [] \<and> ut_fromPublicKey_ok env a \<and> ut_DAO_CONTRACT_ID env \<noteq> [] \<and>
       get_user_team a s = None \<and> (\<forall>cv. ut_rpc_fault env \<noteq> Some (UtRetval cv)) \<longrightarrow>
         (\<exists>m. getUserTeam env (Some a) s = (UserTeam None m, s)))
   \<and> (a \<noteq> [] \<and> ut_fromPublicKey_ok env a \<and> ut_DAO_CONTRACT_ID env \<noteq> [] \<and>
       \<not> ut_Contract_throws env \<and> ut_rpc_fault env = None \<and> get_user_team a s = Some t \<longrightarrow>
         getUserTeam env (Some a) s =
           (UserTeam (Some (if t = [] then ''unknown-team'' else t)) ''Team membership found'', s))
   \<and> (a \<noteq> [] \<and> ut_fromPublicKey_ok env a \<and> ut_DAO_CONTRACT_ID env \<noteq> [] \<and>
       \<not> ut_Contract_throws env \<and> simulate_get_user_team env a s = UtRetval cv \<longrightarrow>
         fst (getUserTeam env (Some a) s) =
           (if switch_name cv = ''scvVoid'' then UserTeam None ''User is not a member of any team''
            else case actualTeamName cv of
                   None \<Rightarrow> UserTeam (Some ''unknown-team'') ''Team membership found''
                 | Some n \<Rightarrow>
                     UserTeam (Some (if n = [] then ''unknown-team'' else n))
                       ''Team membership found''))"
proof -
  have fr: "snd (getUserTeam env address s) = s" by (rule getUserTeam_frame)
  have fault: "\<exists>m. getUserTeam env (Some a) s = (UserTeam None m, s)"
    if "a \<noteq> []" "ut_fromPublicKey_ok env a" "ut_DAO_CONTRACT_ID env \<noteq> []"
       "ut_Contract_throws env \<or> ut_rpc_fault env = Some UtThrows \<or>
        ut_rpc_fault env = Some UtNoRetval \<or> ut_rpc_fault env = Some UtMalformed"
    using that by (auto simp: getUserTeam_def simulate_get_user_team_def)
  have nomem: "\<exists>m. getUserTeam env (Some a) s = (UserTeam None m, s)"
    if "a \<noteq> []" "ut_fromPublicKey_ok env a" "ut_DAO_CONTRACT_ID env \<noteq> []"
       "get_user_team a s = None" "\<forall>cv. ut_rpc_fault env \<noteq> Some (UtRetval cv)"
    using getUserTeam_no_membership[OF that] getUserTeam_frame[of env "Some a" s]
    by (auto simp: prod_eq_iff)
  have mem: "getUserTeam env (Some a) s =
           (UserTeam (Some (if t = [] then ''unknown-team'' else t)) ''Team membership found'', s)"
    if "a \<noteq> []" "ut_fromPublicKey_ok env a" "ut_DAO_CONTRACT_ID env \<noteq> []"
       "\<not> ut_Contract_throws env" "ut_rpc_fault env = None" "get_user_team a s = Some t"
    using that
    by (simp add: getUserTeam_def simulate_get_user_team_def sdk_user_team_def
          actualTeamName_def truthy_def)
  show ?thesis
    using fr fault nomem mem getUserTeam_answer[of a env s cv] by blast
qed

text \<open>\<^verbatim>\<open>GM\<close> is a member of team alpha, \<^verbatim>\<open>GN\<close> of no team.\<close>

theorem get_user_team_read_only_witness:
  "getUserTeam ut_env_ok (Some ''GM'') store_alpha =
     (UserTeam (Some ''alpha'') ''Team membership found'', store_alpha)
   \<and> (\<exists>m. getUserTeam ut_env_ok (Some ''GN'') store_alpha = (UserTeam None m, store_alpha))
   \<and> (\<exists>m. getUserTeam (ut_env_ok\<lparr>ut_rpc_fault := Some UtThrows\<rparr>) (Some ''GM'') store_alpha =
            (UserTeam None m, store_alpha))
   \<and> get_user_team ''GM'' store_alpha = Some ''alpha''
   \<and> get_user_team ''GN'' store_alpha = None"
proof -
  note t1 = get_user_team_read_only[where env = ut_env_ok and address = "Some ''GM''"
      and s = store_alpha and a = "''GM''" and t = "''alpha''"]
  note t2 = get_user_team_read_only[where env = ut_env_ok and address = "Some ''GN''"
      and s = store_alpha and a = "''GN''" and t = "''alpha''"]
  note t3 = get_user_team_read_only[where env = "ut_env_ok\<lparr>ut_rpc_fault := Some UtThrows\<rparr>"
      and address = "Some ''GM''" and s = store_alpha and a = "''GM''" and t = "''alpha''"]
  have e: "ut_fromPublicKey_ok ut_env_ok ''GM''" "ut_fromPublicKey_ok ut_env_ok ''GN''"
    "ut_DAO_CONTRACT_ID ut_env_ok \<noteq> []" "\<not> ut_Contract_throws ut_env_ok"
    "ut_rpc_fault ut_env_ok = None" "\<forall>cv. ut_rpc_fault ut_env_ok \<noteq> Some (UtRetval cv)"
    by (simp_all add: ut_env_ok_def)
  have e3: "ut_fromPublicKey_ok (ut_env_ok\<lparr>ut_rpc_fault := Some UtThrows\<rparr>) ''GM''"
    "ut_DAO_CONTRACT_ID (ut_env_ok\<lparr>ut_rpc_fault := Some UtThrows\<rparr>) \<noteq> []"
    "ut_rpc_fault (ut_env_ok\<lparr>ut_rpc_fault := Some UtThrows\<rparr>) = Some UtThrows"
    by (simp_all add: ut_env_ok_def)
  have g: "get_user_team ''GM'' store_alpha = Some ''alpha''"
    "get_user_team ''GN'' store_alpha = None"
    by (simp_all add: get_user_team_def store_alpha_eq)
  have n: "''GM'' \<noteq> []" "''GN'' \<noteq> []" by simp_all
  have "getUserTeam ut_env_ok (Some ''GM'') store_alpha =
          (UserTeam (Some (if ''alpha'' = [] then ''unknown-team'' else ''alpha''))
             ''Team membership found'', store_alpha)"
    using t1 e g n by blast
  then have f1: "getUserTeam ut_env_ok (Some ''GM'') store_alpha =
          (UserTeam (Some ''alpha'') ''Team membership found'', store_alpha)"
    by simp
  have f2: "\<exists>m. getUserTeam ut_env_ok (Some ''GN'') store_alpha = (UserTeam None m, store_alpha)"
    using t2 e g n by blast
  have f3: "\<exists>m. getUserTeam (ut_env_ok\<lparr>ut_rpc_fault := Some UtThrows\<rparr>) (Some ''GM'') store_alpha =
            (UserTeam None m, store_alpha)"
    using t3 e3 n by blast
  show ?thesis using f1 f2 f3 g by blast
qed

end
